theory Spec2Isabelle
  imports Complex_Main
begin

section \<open>JavaScript numbers\<close>

text \<open>
  The program computes with JavaScript numbers.  A number is modelled as a real, or one of
  the three non-finite values: the arithmetic is exact (the rounding of IEEE doubles is
  not modelled) and zero is unsigned (\<open>-0\<close> is not modelled; a division by zero takes
  the sign of the dividend).  Every operator below follows the ECMAScript rules for
  \<open>NaN\<close> and the infinities.
\<close>

datatype jsnum = NaN | PInf | NInf | Fin real

fun jneg :: "jsnum \<Rightarrow> jsnum" where
  "jneg NaN = NaN"
| "jneg PInf = NInf"
| "jneg NInf = PInf"
| "jneg (Fin x) = Fin (- x)"

fun jadd :: "jsnum \<Rightarrow> jsnum \<Rightarrow> jsnum" where
  "jadd (Fin x) (Fin y) = Fin (x + y)"
| "jadd NaN _ = NaN"
| "jadd _ NaN = NaN"
| "jadd PInf NInf = NaN"
| "jadd NInf PInf = NaN"
| "jadd PInf _ = PInf"
| "jadd _ PInf = PInf"
| "jadd NInf _ = NInf"
| "jadd _ NInf = NInf"

definition jsub :: "jsnum \<Rightarrow> jsnum \<Rightarrow> jsnum" where
  "jsub a b = jadd a (jneg b)"

text \<open>The sign of a number that is not \<open>NaN\<close>: \<open>1\<close>, \<open>0\<close> or \<open>-1\<close>.\<close>

fun jsign :: "jsnum \<Rightarrow> int" where
  "jsign NaN = 0"
| "jsign PInf = 1"
| "jsign NInf = - 1"
| "jsign (Fin x) = (if 0 < x then 1 else if x < 0 then - 1 else 0)"

definition signedInf :: "int \<Rightarrow> jsnum" where
  "signedInf s = (if s = 0 then NaN else if 0 < s then PInf else NInf)"

fun jmul :: "jsnum \<Rightarrow> jsnum \<Rightarrow> jsnum" where
  "jmul (Fin x) (Fin y) = Fin (x * y)"
| "jmul NaN _ = NaN"
| "jmul _ NaN = NaN"
| "jmul a b = signedInf (jsign a * jsign b)"

fun jdiv :: "jsnum \<Rightarrow> jsnum \<Rightarrow> jsnum" where
  "jdiv (Fin x) (Fin y) = (if y = 0 then signedInf (jsign (Fin x)) else Fin (x / y))"
| "jdiv NaN _ = NaN"
| "jdiv _ NaN = NaN"
| "jdiv (Fin x) _ = Fin 0"
| "jdiv a (Fin y) = signedInf (jsign a * (if y < 0 then - 1 else 1))"
| "jdiv _ _ = NaN"

text \<open>Comparison operators: every comparison with \<open>NaN\<close> is false.\<close>

fun jlt :: "jsnum \<Rightarrow> jsnum \<Rightarrow> bool" where
  "jlt (Fin x) (Fin y) = (x < y)"
| "jlt NaN _ = False"
| "jlt _ NaN = False"
| "jlt PInf _ = False"
| "jlt _ NInf = False"
| "jlt NInf _ = True"
| "jlt _ PInf = True"

definition jgt :: "jsnum \<Rightarrow> jsnum \<Rightarrow> bool" where
  "jgt a b = jlt b a"

definition jle :: "jsnum \<Rightarrow> jsnum \<Rightarrow> bool" where
  "jle a b = (a \<noteq> NaN \<and> b \<noteq> NaN \<and> \<not> jlt b a)"

definition jge :: "jsnum \<Rightarrow> jsnum \<Rightarrow> bool" where
  "jge a b = jle b a"

text \<open>Truthiness of a number: \<open>0\<close> and \<open>NaN\<close> are falsy.\<close>

fun truthy :: "jsnum \<Rightarrow> bool" where
  "truthy NaN = False"
| "truthy (Fin x) = (x \<noteq> 0)"
| "truthy _ = True"

text \<open>\<open>a || b\<close> on numbers.\<close>

definition jor :: "jsnum \<Rightarrow> jsnum \<Rightarrow> jsnum" where
  "jor a b = (if truthy a then a else b)"

definition isNaN :: "jsnum \<Rightarrow> bool" where
  "isNaN a = (a = NaN)"


subsection \<open>The \<open>Math\<close> functions the program calls\<close>

fun Math_floor :: "jsnum \<Rightarrow> jsnum" where
  "Math_floor (Fin x) = Fin (of_int \<lfloor>x\<rfloor>)"
| "Math_floor a = a"

fun Math_sin :: "jsnum \<Rightarrow> jsnum" where
  "Math_sin (Fin x) = Fin (sin x)"
| "Math_sin _ = NaN"

fun Math_cos :: "jsnum \<Rightarrow> jsnum" where
  "Math_cos (Fin x) = Fin (cos x)"
| "Math_cos _ = NaN"

fun Math_sqrt :: "jsnum \<Rightarrow> jsnum" where
  "Math_sqrt (Fin x) = (if x < 0 then NaN else Fin (sqrt x))"
| "Math_sqrt PInf = PInf"
| "Math_sqrt _ = NaN"

fun Math_asin :: "jsnum \<Rightarrow> jsnum" where
  "Math_asin (Fin x) = (if - 1 \<le> x \<and> x \<le> 1 then Fin (arcsin x) else NaN)"
| "Math_asin _ = NaN"

text \<open>\<open>x ** 2\<close>.\<close>

fun jsquare :: "jsnum \<Rightarrow> jsnum" where
  "jsquare (Fin x) = Fin (x ^ 2)"
| "jsquare NaN = NaN"
| "jsquare _ = PInf"

section \<open>\<open>haversineKm\<close>\<close>

text \<open>
  \<open>Math.PI\<close> is the double nearest to \<open>\<pi>\<close>, \<open>0x1.921FB54442D18p+1\<close>: a
  rational, a little below \<open>\<pi>\<close>.
\<close>

definition Math_PI :: real where
  "Math_PI = 884279719003555 / 281474976710656"

definition toRad :: "jsnum \<Rightarrow> jsnum" where
  "toRad deg = jdiv (jmul deg (Fin Math_PI)) (Fin 180)"

definition haversineKm :: "jsnum \<Rightarrow> jsnum \<Rightarrow> jsnum \<Rightarrow> jsnum \<Rightarrow> jsnum" where
  "haversineKm aLat aLon bLat bLon =
    (let R = Fin 6371;
         dLat = toRad (jsub bLat aLat);
         dLon = toRad (jsub bLon aLon);
         lat1 = toRad aLat;
         lat2 = toRad bLat;
         a = jadd (jsquare (Math_sin (jdiv dLat (Fin 2))))
                  (jmul (jmul (Math_cos lat1) (Math_cos lat2))
                        (jsquare (Math_sin (jdiv dLon (Fin 2)))))
     in jmul (jmul (Fin 2) R) (Math_asin (Math_sqrt a)))"

section \<open>Strings\<close>

text \<open>
  Strings are lists of characters.  The models of the string functions below are exact on
  ASCII text; white space is the ASCII white space (space, tab, line feed, vertical tab,
  form feed, carriage return).
\<close>

definition isWhiteSpace :: "char \<Rightarrow> bool" where
  "isWhiteSpace c = (c \<in> set [CHR '' '', CHR 0x09, CHR 0x0A, CHR 0x0B, CHR 0x0C, CHR 0x0D])"

definition trimStart :: "string \<Rightarrow> string" where
  "trimStart s = dropWhile isWhiteSpace s"

definition trim :: "string \<Rightarrow> string" where
  "trim s = rev (dropWhile isWhiteSpace (rev (dropWhile isWhiteSpace s)))"

text \<open>\<open>s.split(c)\<close> for a one-character separator: never empty.\<close>

fun splitOn :: "char \<Rightarrow> string \<Rightarrow> string list" where
  "splitOn c [] = [[]]"
| "splitOn c (x # xs) =
     (if x = c then [] # splitOn c xs
      else (case splitOn c xs of p # ps \<Rightarrow> (x # p) # ps | [] \<Rightarrow> [[x]]))"

text \<open>\<open>s.replace\<close> with a global pattern of one character: every occurrence.\<close>

definition replaceAll :: "char \<Rightarrow> char \<Rightarrow> string \<Rightarrow> string" where
  "replaceAll a b s = map (\<lambda>c. if c = a then b else c) s"

text \<open>\<open>s.replace(",", ".")\<close>: the first occurrence only.\<close>

fun replaceFirst :: "char \<Rightarrow> char \<Rightarrow> string \<Rightarrow> string" where
  "replaceFirst a b [] = []"
| "replaceFirst a b (c # cs) = (if c = a then b # cs else c # replaceFirst a b cs)"

text \<open>
  A property of a parsed row is a string or \<open>undefined\<close> (\<open>None\<close>); \<open>undefined\<close> and
  the empty string are falsy.  \<open>strOr a b\<close> is \<open>a || b\<close>.
\<close>

definition strTruthy :: "string option \<Rightarrow> bool" where
  "strTruthy v = (case v of None \<Rightarrow> False | Some s \<Rightarrow> s \<noteq> [])"

definition strOr :: "string option \<Rightarrow> string option \<Rightarrow> string option" where
  "strOr a b = (if strTruthy a then a else b)"

text \<open>\<open>v || dflt\<close> where \<open>dflt\<close> is a string literal.\<close>

definition strOrDefault :: "string option \<Rightarrow> string \<Rightarrow> string" where
  "strOrDefault v dflt = (case v of None \<Rightarrow> dflt | Some s \<Rightarrow> if s = [] then dflt else s)"

subsection \<open>Numeric literals\<close>

definition isDigit :: "char \<Rightarrow> bool" where
  "isDigit c = (48 \<le> (of_char c :: nat) \<and> (of_char c :: nat) \<le> 57)"

definition digitVal :: "char \<Rightarrow> nat" where
  "digitVal c = of_char c - 48"

definition digitsValue :: "string \<Rightarrow> nat" where
  "digitsValue ds = foldl (\<lambda>a c. 10 * a + digitVal c) 0 ds"

definition hexVal :: "char \<Rightarrow> nat option" where
  "hexVal c =
     (let n = (of_char c :: nat)
      in if 48 \<le> n \<and> n \<le> 57 then Some (n - 48)
         else if 97 \<le> n \<and> n \<le> 102 then Some (n - 87)
         else if 65 \<le> n \<and> n \<le> 70 then Some (n - 55)
         else None)"

fun radixDigits :: "nat \<Rightarrow> nat \<Rightarrow> string \<Rightarrow> nat option" where
  "radixDigits b acc [] = Some acc"
| "radixDigits b acc (c # cs) =
     (case hexVal c of
        None \<Rightarrow> None
      | Some v \<Rightarrow> if v < b then radixDigits b (b * acc + v) cs else None)"

text \<open>The digits of a \<open>0x\<close>, \<open>0o\<close> or \<open>0b\<close> literal: at least one, all below the radix.\<close>

definition radixValue :: "nat \<Rightarrow> string \<Rightarrow> jsnum" where
  "radixValue b ds =
     (if ds = [] then NaN
      else (case radixDigits b 0 ds of None \<Rightarrow> NaN | Some v \<Rightarrow> Fin (real v)))"

definition nonDecimal :: "string \<Rightarrow> jsnum option" where
  "nonDecimal t =
     (case t of
        z # x # ds \<Rightarrow>
          if z = CHR ''0'' \<and> (x = CHR ''x'' \<or> x = CHR ''X'') then Some (radixValue 16 ds)
          else if z = CHR ''0'' \<and> (x = CHR ''o'' \<or> x = CHR ''O'') then Some (radixValue 8 ds)
          else if z = CHR ''0'' \<and> (x = CHR ''b'' \<or> x = CHR ''B'') then Some (radixValue 2 ds)
          else None
      | _ \<Rightarrow> None)"

text \<open>An optional sign at the head of a string: the sign and the rest.\<close>

definition signOf :: "string \<Rightarrow> real \<times> string" where
  "signOf s =
     (case s of
        c # r \<Rightarrow> if c = CHR ''+'' then (1, r) else if c = CHR ''-'' then (- 1, r) else (1, s)
      | [] \<Rightarrow> (1, s))"

definition pow10 :: "int \<Rightarrow> real" where
  "pow10 e = (if 0 \<le> e then 10 ^ nat e else 1 / 10 ^ nat (- e))"

text \<open>
  An optional exponent part (\<open>e\<close> or \<open>E\<close>, an optional sign, one digit or more) at the
  head of a string: the exponent and the rest; \<open>0\<close> and the string itself when there is
  none.
\<close>

definition scanExponent :: "string \<Rightarrow> int \<times> string" where
  "scanExponent s =
     (case s of
        [] \<Rightarrow> (0, s)
      | c # r \<Rightarrow>
          if c = CHR ''e'' \<or> c = CHR ''E'' then
            (let (sg, r') = signOf r; ds = takeWhile isDigit r'
             in if ds = [] then (0, s)
                else ((if sg < 0 then - 1 else 1) * int (digitsValue ds), dropWhile isDigit r'))
          else (0, s))"

text \<open>
  The longest prefix of a string that is an unsigned decimal literal (digits, an optional
  fraction, an optional exponent; \<open>Infinity\<close> apart): its value and the rest of the
  string, or \<open>None\<close> when no prefix is one.
\<close>

definition scanUnsignedDecimal :: "string \<Rightarrow> (real \<times> string) option" where
  "scanUnsignedDecimal s =
     (let ip = takeWhile isDigit s;
          r1 = dropWhile isDigit s;
          (fp, r2) = (case r1 of
                        [] \<Rightarrow> ([], r1)
                      | c # r \<Rightarrow> if c = CHR ''.'' then (takeWhile isDigit r, dropWhile isDigit r)
                                else ([], r1))
      in if ip = [] \<and> fp = [] then None
         else (let (e, r3) = scanExponent r2;
                   m = real (digitsValue ip) + real (digitsValue fp) / 10 ^ length fp
               in Some (m * pow10 e, r3)))"

text \<open>The conversion of a string to a number (unary \<open>+\<close>).\<close>

definition toNumber :: "string \<Rightarrow> jsnum" where
  "toNumber s =
     (let t = trim s
      in if t = [] then Fin 0
         else (case nonDecimal t of
                 Some v \<Rightarrow> v
               | None \<Rightarrow>
                   (let (sg, u) = signOf t
                    in if u = ''Infinity'' then (if sg < 0 then NInf else PInf)
                       else (case scanUnsignedDecimal u of
                               None \<Rightarrow> NaN
                             | Some (v, rest) \<Rightarrow> if rest = [] then Fin (sg * v) else NaN))))"

definition parseFloat :: "string \<Rightarrow> jsnum" where
  "parseFloat s =
     (let (sg, u) = signOf (trimStart s)
      in if take 8 u = ''Infinity'' then (if sg < 0 then NInf else PInf)
         else (case scanUnsignedDecimal u of
                 None \<Rightarrow> NaN
               | Some (v, rest) \<Rightarrow> Fin (sg * v)))"

text \<open>\<open>parseInt(s, 10)\<close>.\<close>

definition parseInt10 :: "string \<Rightarrow> jsnum" where
  "parseInt10 s =
     (let (sg, u) = signOf (trimStart s); ds = takeWhile isDigit u
      in if ds = [] then NaN else Fin (sg * real (digitsValue ds)))"

section \<open>Dates\<close>

text \<open>
  A \<open>Date\<close> object holds a time value: the milliseconds since the epoch, or \<open>NaN\<close> for an
  invalid date.  Dates are always truthy.
\<close>

datatype jsdate = Date (getTime: jsnum)

text \<open>\<open>ToIntegerOrInfinity\<close> of a finite number: truncation towards zero.\<close>

definition truncReal :: "real \<Rightarrow> int" where
  "truncReal x = (if 0 \<le> x then \<lfloor>x\<rfloor> else \<lceil>x\<rceil>)"

definition DayFromYear :: "int \<Rightarrow> int" where
  "DayFromYear y = 365 * (y - 1970) + (y - 1969) div 4 - (y - 1901) div 100 + (y - 1601) div 400"

definition InLeapYear :: "int \<Rightarrow> bool" where
  "InLeapYear y =
     (if y mod 400 = 0 then True else if y mod 100 = 0 then False else y mod 4 = 0)"

text \<open>The day within the year of the first day of month \<open>m\<close> (\<open>0\<close> to \<open>11\<close>).\<close>

definition monthStart :: "int \<Rightarrow> nat \<Rightarrow> int" where
  "monthStart y m =
     (let l = (if InLeapYear y then 1 else 0)
      in [0, 31, 59 + l, 90 + l, 120 + l, 151 + l, 181 + l, 212 + l, 243 + l, 273 + l,
          304 + l, 334 + l] ! m)"

text \<open>
  \<open>MakeDay\<close>, \<open>MakeTime\<close>, \<open>MakeDate\<close> and \<open>TimeClip\<close> of ECMAScript.  \<open>MakeDay\<close>
  gives \<open>NaN\<close> when the first day of the month is outside the range of time values.
\<close>

definition MakeDay :: "jsnum \<Rightarrow> jsnum \<Rightarrow> jsnum \<Rightarrow> jsnum" where
  "MakeDay year month date =
     (case (year, month, date) of
        (Fin y, Fin m, Fin dt) \<Rightarrow>
          (let ym = truncReal y + truncReal m div 12;
               mn = nat (truncReal m mod 12);
               d0 = DayFromYear ym + monthStart ym mn
           in if \<bar>d0 * 86400000\<bar> > 8640000000000000 then NaN
              else Fin (of_int (d0 + truncReal dt - 1)))
      | _ \<Rightarrow> NaN)"

definition MakeTime :: "jsnum \<Rightarrow> jsnum \<Rightarrow> jsnum \<Rightarrow> jsnum \<Rightarrow> jsnum" where
  "MakeTime hour minute sec ms =
     (case (hour, minute, sec, ms) of
        (Fin h, Fin m, Fin s, Fin milli) \<Rightarrow>
          Fin (of_int (truncReal h * 3600000 + truncReal m * 60000 + truncReal s * 1000
                 + truncReal milli))
      | _ \<Rightarrow> NaN)"

definition MakeDate :: "jsnum \<Rightarrow> jsnum \<Rightarrow> jsnum" where
  "MakeDate day time =
     (case (day, time) of (Fin d, Fin t) \<Rightarrow> Fin (d * 86400000 + t) | _ \<Rightarrow> NaN)"

definition TimeClip :: "jsnum \<Rightarrow> jsnum" where
  "TimeClip time =
     (case time of
        Fin t \<Rightarrow> if \<bar>t\<bar> > 8640000000000000 then NaN else Fin (of_int (truncReal t))
      | _ \<Rightarrow> NaN)"

text \<open>
  The local time zone is a parameter: \<open>tza t\<close> is the offset in milliseconds of local
  time from UTC at the local time \<open>t\<close>.
\<close>

definition UTC :: "(int \<Rightarrow> int) \<Rightarrow> jsnum \<Rightarrow> jsnum" where
  "UTC tza time = (case time of Fin t \<Rightarrow> Fin (t - of_int (tza \<lfloor>t\<rfloor>)) | _ \<Rightarrow> NaN)"

text \<open>
  \<open>new Date(year, month, date, hours, minutes, seconds)\<close>, in local time.  An argument
  that is \<open>undefined\<close> converts to \<open>NaN\<close>.
\<close>

definition newDate ::
  "(int \<Rightarrow> int) \<Rightarrow> jsnum \<Rightarrow> jsnum \<Rightarrow> jsnum \<Rightarrow> jsnum \<Rightarrow> jsnum \<Rightarrow> jsnum \<Rightarrow> jsdate" where
  "newDate tza year month date hours minutes seconds =
     (let yr = (case year of
                  Fin y \<Rightarrow> (let yi = truncReal y
                            in if 0 \<le> yi \<and> yi \<le> 99 then Fin (of_int (1900 + yi)) else year)
                | _ \<Rightarrow> year)
      in Date (TimeClip (UTC tza
           (MakeDate (MakeDay yr month date) (MakeTime hours minutes seconds (Fin 0))))))"

text \<open>
  The element \<open>i\<close> of a destructured array, as an argument of the \<open>Date\<close>
  constructor: a missing element is \<open>undefined\<close>, which converts to \<open>NaN\<close>.
\<close>

definition argAt :: "jsnum list \<Rightarrow> nat \<Rightarrow> jsnum" where
  "argAt xs i = (if i < length xs then xs ! i else NaN)"

section \<open>\<open>parseLocalDate\<close>\<close>

text \<open>
  \<open>null\<close> is \<open>None\<close>.  The parsing of a date string by \<open>new Date(string)\<close> is left to
  the implementation by ECMAScript for the formats that reach it here: \<open>dateParse\<close>, the
  time value it gives, is a parameter.  None of the calls in the body throws on strings,
  so the \<open>catch\<close> branch is not reached.
\<close>

definition parseLocalDate ::
  "(int \<Rightarrow> int) \<Rightarrow> (string \<Rightarrow> jsnum) \<Rightarrow> string option \<Rightarrow> string option \<Rightarrow> jsdate option" where
  "parseLocalDate tza dateParse dateStr timeStr =
     (if \<not> strTruthy dateStr then None
      else
        (let sdate = trim (strOrDefault dateStr []);
             stime = trim (strOrDefault timeStr ''00:00:00'');
             t = replaceAll (CHR ''.'') (CHR '':'') stime;
             d = (if CHR ''/'' \<in> set sdate then splitOn (CHR ''/'') sdate
                  else splitOn (CHR ''-'') sdate)
         in if length d = 3 then
              (let (day, month, year) =
                     (if jgt (toNumber (d ! 0)) (Fin 31)
                      then (toNumber (d ! 2), toNumber (d ! 1), toNumber (d ! 0))
                      else (toNumber (d ! 0), toNumber (d ! 1), toNumber (d ! 2)));
                   year1 = (if jgt year (Fin 2400) then jsub year (Fin 543) else year);
                   year2 = (if jlt year1 (Fin 100) then jadd year1 (Fin 2000) else year1);
                   hms = map (\<lambda>x. parseInt10 (if x = [] then ''0'' else x)) (splitOn (CHR '':'') t)
               in Some (newDate tza year2 (jsub month (Fin 1)) day
                          (argAt hms 0) (argAt hms 1) (argAt hms 2)))
            else Some (Date (dateParse (sdate @ '' '' @ t)))))"

section \<open>Sorting with a comparator\<close>

text \<open>
  \<open>xs.sort(cmp)\<close> is stable, and \<open>a\<close> goes behind \<open>b\<close> when \<open>cmp(a, b) > 0\<close>; a
  comparator result of \<open>NaN\<close> counts as \<open>0\<close>.  The model is the stable insertion sort.
  ECMAScript fixes the result only for a consistent comparator (here: when no date is
  invalid); for the others this is one of the orders an implementation may give.
\<close>

fun insertBy :: "('a \<Rightarrow> 'a \<Rightarrow> jsnum) \<Rightarrow> 'a \<Rightarrow> 'a list \<Rightarrow> 'a list" where
  "insertBy cmp x [] = [x]"
| "insertBy cmp x (y # ys) =
     (if jgt (cmp x y) (Fin 0) then y # insertBy cmp x ys else x # y # ys)"

definition sortBy :: "('a \<Rightarrow> 'a \<Rightarrow> jsnum) \<Rightarrow> 'a list \<Rightarrow> 'a list" where
  "sortBy cmp xs = foldr (insertBy cmp) xs []"

section \<open>Events and \<open>handleFile\<close>\<close>

record event =
  date :: jsdate
  lat :: jsnum
  lon :: jsnum
  mag :: jsnum
  locate :: string

text \<open>A row of the parsed CSV file: from column names to strings.\<close>

type_synonym row = "string \<Rightarrow> string option"

text \<open>The comparator \<open>(a, b) => a.date - b.date\<close>.\<close>

definition byDate :: "'a event_scheme \<Rightarrow> 'b event_scheme \<Rightarrow> jsnum" where
  "byDate a b = jsub (getTime (date a)) (getTime (date b))"

text \<open>The callback of \<open>map\<close> in \<open>handleFile\<close>: \<open>None\<close> is \<open>null\<close>.\<close>

definition parseRow :: "(int \<Rightarrow> int) \<Rightarrow> (string \<Rightarrow> jsnum) \<Rightarrow> row \<Rightarrow> event option" where
  "parseRow tza dateParse r =
     (let dt = parseLocalDate tza dateParse (r ''DATE'') (r ''TIME'');
          lat = parseFloat (replaceFirst (CHR '','') (CHR ''.'')
                  (strOrDefault (strOr (r ''LAT'') (r ''Latitude'')) []));
          lon = parseFloat (replaceFirst (CHR '','') (CHR ''.'')
                  (strOrDefault (strOr (strOr (r ''LONG'') (r ''LON'')) (r ''Longitude'')) []));
          mag = parseFloat (replaceFirst (CHR '','') (CHR ''.'')
                  (strOrDefault (strOr (strOr (r ''M/I'') (r ''MAG'')) (r ''M'')) []))
      in (case dt of
            None \<Rightarrow> None
          | Some d \<Rightarrow>
              if isNaN lat \<or> isNaN lon \<or> isNaN mag then None
              else Some \<lparr>date = d, lat = lat, lon = lon, mag = mag,
                          locate = strOrDefault (strOr (r ''LOCATE'') (r ''PLACE'')) ''-''\<rparr>))"

text \<open>The rows that \<open>handleFile\<close> stores as \<open>localData\<close>, from the rows of the file.\<close>

definition handleFile :: "(int \<Rightarrow> int) \<Rightarrow> (string \<Rightarrow> jsnum) \<Rightarrow> row list \<Rightarrow> event list" where
  "handleFile tza dateParse data = sortBy byDate (List.map_filter (parseRow tza dateParse) data)"

section \<open>\<open>groupByGrid\<close>\<close>

record cell =
  gx :: jsnum
  gy :: jsnum
  degLat :: jsnum
  rows :: "event list"

text \<open>
  The grid is a \<open>Map\<close>, which keeps its keys in the order of their insertion: an
  association list.  The key is the string of \<open>gx\<close>, a comma and \<open>gy\<close>; two keys are
  equal exactly when the two numbers are, so the key is modelled as the pair.
\<close>

type_synonym gridkey = "jsnum \<times> jsnum"

type_synonym grid = "(gridkey \<times> cell) list"

text \<open>
  The cell of a row.  The divisor of the longitude is the product of \<open>degLat\<close> and the
  cosine of the latitude when that product is truthy, and \<open>1\<close> when it is \<open>0\<close> or
  \<open>NaN\<close>.  The angle is formed with \<open>Math.PI\<close>, so at latitude 90 it is not
  \<open>\<pi> / 2\<close> and the cosine is small but not \<open>0\<close>, as in the program.  A quotient
  on the boundary of a floor in exact arithmetic can fall on the other side in doubles.
\<close>

definition cellOf :: "jsnum \<Rightarrow> event \<Rightarrow> gridkey" where
  "cellOf cellKm r =
     (let degLat = jdiv cellKm (Fin 111);
          gy = Math_floor (jdiv (lat r) degLat);
          gx = Math_floor (jdiv (lon r)
                 (jor (jmul degLat (Math_cos (jdiv (jmul (lat r) (Fin Math_PI)) (Fin 180)))) (Fin 1)))
      in (gx, gy))"

definition gridAdd :: "jsnum \<Rightarrow> grid \<Rightarrow> event \<Rightarrow> grid" where
  "gridAdd cellKm g r =
     (let key = cellOf cellKm r;
          g1 = (if key \<in> set (map fst g) then g
                else g @ [(key, \<lparr>gx = fst key, gy = snd key, degLat = jdiv cellKm (Fin 111),
                                  rows = []\<rparr>)])
      in map (\<lambda>(k, c). if k = key then (k, c\<lparr>rows := rows c @ [r]\<rparr>) else (k, c)) g1)"

definition groupByGrid :: "event list \<Rightarrow> jsnum \<Rightarrow> grid" where
  "groupByGrid rs cellKm = foldl (gridAdd cellKm) [] rs"

section \<open>\<open>buildDataset\<close>\<close>

text \<open>The parameters of the form, which the closures of the component read.\<close>

record config =
  cellKm :: jsnum
  lookbackDays :: jsnum
  horizonDays :: jsnum
  magThreshold :: jsnum

record meta =
  cell :: gridkey
  time :: jsnum
  source :: string

record dataset =
  X :: "jsnum list list"
  y :: "nat list"
  metas :: "meta list"

text \<open>\<open>days * 24 * 3600 * 1000\<close>.\<close>

definition daysMs :: "jsnum \<Rightarrow> jsnum" where
  "daysMs days = jmul (jmul (jmul days (Fin 24)) (Fin 3600)) (Fin 1000)"

text \<open>
  The three features of the past events: their number, their mean magnitude and the hours
  since the last of them.
\<close>

definition pastFeatures :: "jsnum \<Rightarrow> event list \<Rightarrow> jsnum list" where
  "pastFeatures t past =
     (let cnt = length past;
          avgMag = (if cnt \<noteq> 0 then jdiv (foldl (\<lambda>s e. jadd s (mag e)) (Fin 0) past) (Fin (real cnt))
                    else Fin 0);
          lastTime = (if length past \<noteq> 0
                      then jdiv (jsub t (getTime (date (last past)))) (Fin 3600000)
                      else Fin 999999)
      in [Fin (real cnt), avgMag, lastTime])"

text \<open>One turn of the loop over a cell's rows: what is pushed to \<open>X\<close>, \<open>y\<close> and \<open>meta\<close>.\<close>

definition example :: "config \<Rightarrow> cell \<Rightarrow> event list \<Rightarrow> nat \<Rightarrow> jsnum list \<times> nat \<times> meta" where
  "example cfg c cellRows i =
     (let cur = cellRows ! i;
          t = getTime (date cur);
          lookStart = jsub t (daysMs (lookbackDays cfg));
          past = filter (\<lambda>r. jge (getTime (date r)) lookStart \<and> jlt (getTime (date r)) t) cellRows;
          horizonEnd = jadd t (daysMs (horizonDays cfg));
          futureEvents = filter (\<lambda>r. jgt (getTime (date r)) t \<and> jle (getTime (date r)) horizonEnd)
                           cellRows;
          label = (if list_ex (\<lambda>fe. jge (mag fe) (magThreshold cfg)) futureEvents then 1 else 0)
      in ([lat cur, lon cur] @ pastFeatures t past, label,
          \<lparr>cell = (gx c, gy c), time = t, source = locate cur\<rparr>))"

definition push :: "dataset \<Rightarrow> jsnum list \<times> nat \<times> meta \<Rightarrow> dataset" where
  "push ds e =
     (case e of (x, l, m) \<Rightarrow> \<lparr>X = X ds @ [x], y = y ds @ [l], metas = metas ds @ [m]\<rparr>)"

text \<open>The callback of \<open>grid.forEach\<close>: the loop runs \<open>i\<close> from \<open>0\<close> while \<open>i < length - 1\<close>.\<close>

definition cellLoop :: "config \<Rightarrow> dataset \<Rightarrow> gridkey \<times> cell \<Rightarrow> dataset" where
  "cellLoop cfg ds kc =
     (let c = snd kc;
          cellRows = sortBy byDate (rows c)
      in foldl (\<lambda>acc i. push acc (example cfg c cellRows i)) ds [0 ..< length cellRows - 1])"

definition buildDataset :: "config \<Rightarrow> event list \<Rightarrow> dataset" where
  "buildDataset cfg rs =
     foldl (cellLoop cfg) \<lparr>X = [], y = [], metas = []\<rparr> (groupByGrid rs (cellKm cfg))"

section \<open>The normalizer\<close>

text \<open>
  The tensors of TensorFlow.js are modelled as lists of numbers with exact arithmetic.
  \<open>tf.moments(x, 0)\<close> gives the mean and the population variance of each column.
\<close>

definition jsum :: "jsnum list \<Rightarrow> jsnum" where
  "jsum xs = foldl jadd (Fin 0) xs"

definition jmean :: "jsnum list \<Rightarrow> jsnum" where
  "jmean xs = jdiv (jsum xs) (Fin (real (length xs)))"

definition jvariance :: "jsnum list \<Rightarrow> jsnum" where
  "jvariance xs = jmean (map (\<lambda>x. jsquare (jsub x (jmean xs))) xs)"

definition columns :: "jsnum list list \<Rightarrow> jsnum list list" where
  "columns M =
     (case M of [] \<Rightarrow> [] | r # _ \<Rightarrow> map (\<lambda>j. map (\<lambda>row. row ! j) M) [0 ..< length r])"

definition moments :: "jsnum list list \<Rightarrow> jsnum list \<times> jsnum list" where
  "moments M = (map jmean (columns M), map jvariance (columns M))"

text \<open>\<open>tf.sqrt(variance).add(1e-6)\<close>.\<close>

definition stdOf :: "jsnum list \<Rightarrow> jsnum list" where
  "stdOf variance = map (\<lambda>v. jadd (Math_sqrt v) (Fin (1 / 1000000))) variance"

text \<open>\<open>x.sub(mean).div(std)\<close> on one row.\<close>

definition normalizeRow :: "jsnum list \<Rightarrow> jsnum list \<Rightarrow> jsnum list \<Rightarrow> jsnum list" where
  "normalizeRow mean std xs = map (\<lambda>(x, m, s). jdiv (jsub x m) s) (zip xs (zip mean std))"

section \<open>\<open>trainAndPredict\<close>\<close>

text \<open>
  The status line and the alerts are Thai sentences in the source; each is a constructor
  here.  \<open>Idle\<close> is the empty status, \<open>Failed\<close> the status set by the \<open>catch\<close> branch.
\<close>

datatype status = Idle | Preparing | Training | Scoring | Done | Failed

datatype alert = NotEnoughRows | TooFewExamples

record prediction = event +
  probability :: jsnum

record app =
  localData :: "event list"
  predictions :: "prediction list"
  nextPrediction :: "prediction option"
  trainingStatus :: status
  statusLog :: "status list"
  alerts :: "alert list"

definition setTrainingStatus :: "status \<Rightarrow> app \<Rightarrow> app" where
  "setTrainingStatus st s = s\<lparr>trainingStatus := st, statusLog := statusLog s @ [st]\<rparr>"

definition raiseAlert :: "alert \<Rightarrow> app \<Rightarrow> app" where
  "raiseAlert a s = s\<lparr>alerts := alerts s @ [a]\<rparr>"

text \<open>The features of an event at inference: the past events are those within the radius.\<close>

definition inferFeatures :: "config \<Rightarrow> event list \<Rightarrow> event \<Rightarrow> jsnum list" where
  "inferFeatures cfg rs r =
     (let t = getTime (date r);
          lookStart = jsub t (daysMs (lookbackDays cfg));
          past = filter (\<lambda>e. jge (getTime (date e)) lookStart \<and> jlt (getTime (date e)) t
                            \<and> jle (haversineKm (lat e) (lon e) (lat r) (lon r)) (cellKm cfg)) rs
      in [lat r, lon r] @ pastFeatures t past)"

text \<open>\<open>{ ...r, probability: prob }\<close>.\<close>

definition withProbability :: "event \<Rightarrow> jsnum \<Rightarrow> prediction" where
  "withProbability r p =
     \<lparr>date = date r, lat = lat r, lon = lon r, mag = mag r, locate = locate r, probability = p\<rparr>"

text \<open>The comparator \<open>(a, b) => b.probability - a.probability\<close>.\<close>

definition byProbabilityDesc :: "prediction \<Rightarrow> prediction \<Rightarrow> jsnum" where
  "byProbabilityDesc a b = jsub (probability b) (probability a)"

text \<open>
  The network and its training are a parameter: \<open>fit xNorm y\<close> is the trained model, as
  the function from a normalized feature row to the probability it predicts, or \<open>None\<close>
  when TensorFlow.js throws, which the \<open>catch\<close> branch handles.
\<close>

type_synonym trainer = "jsnum list list \<Rightarrow> nat list \<Rightarrow> (jsnum list \<Rightarrow> jsnum) option"

definition trainAndPredict :: "trainer \<Rightarrow> config \<Rightarrow> app \<Rightarrow> app" where
  "trainAndPredict fit cfg s0 =
     (let s1 = setTrainingStatus Preparing s0;
          rs = localData s1
      in if length rs < 30 then setTrainingStatus Idle (raiseAlert NotEnoughRows s1)
         else
           (let ds = buildDataset cfg rs
            in if length (X ds) < 30 then setTrainingStatus Idle (raiseAlert TooFewExamples s1)
               else
                 (let s2 = setTrainingStatus Training s1;
                      (mean, variance) = moments (X ds);
                      std = stdOf variance;
                      xNorm = map (normalizeRow mean std) (X ds)
                  in (case fit xNorm (y ds) of
                        None \<Rightarrow> setTrainingStatus Failed s2
                      | Some model \<Rightarrow>
                          (let s3 = setTrainingStatus Scoring s2;
                               preds = map (\<lambda>r. withProbability r
                                         (model (normalizeRow mean std (inferFeatures cfg rs r)))) rs;
                               shown = rev preds;
                               sorted = sortBy byProbabilityDesc shown
                           in setTrainingStatus Done
                                (s3\<lparr>predictions := shown,
                                    nextPrediction := (case sorted of [] \<Rightarrow> None | p # _ \<Rightarrow> Some p)\<rparr>))))))"

section \<open>Notions used in the statements\<close>

text \<open>
  The keys of the grid in the order of their first occurrence among the rows, and the
  cell that \<open>groupByGrid\<close> holds under a key: the rows of that key, in their order.
\<close>

definition firstKeys :: "jsnum \<Rightarrow> event list \<Rightarrow> gridkey list" where
  "firstKeys km rs = rev (remdups (rev (map (cellOf km) rs)))"

definition cellFor :: "jsnum \<Rightarrow> event list \<Rightarrow> gridkey \<Rightarrow> cell" where
  "cellFor km rs k =
     \<lparr>gx = fst k, gy = snd k, degLat = jdiv km (Fin 111),
      rows = filter (\<lambda>r. cellOf km r = k) rs\<rparr>"

text \<open>
  The training examples of a dataset: the entries of \<open>X\<close>, \<open>y\<close> and \<open>meta\<close> at the
  same index, which the loop pushes together.
\<close>

definition examples :: "dataset \<Rightarrow> (jsnum list \<times> nat \<times> meta) list" where
  "examples ds = zip (X ds) (zip (y ds) (metas ds))"

definition aligned :: "dataset \<Rightarrow> bool" where
  "aligned ds = (length (y ds) = length (X ds) \<and> length (metas ds) = length (X ds))"

text \<open>The examples that the loop pushes for one cell.\<close>

definition cellExamples :: "config \<Rightarrow> cell \<Rightarrow> (jsnum list \<times> nat \<times> meta) list" where
  "cellExamples cfg c =
     map (example cfg c (sortBy byDate (rows c))) [0 ..< length (rows c) - 1]"

text \<open>The mean and the population variance of a list of reals.\<close>

definition meanReal :: "real list \<Rightarrow> real" where
  "meanReal xs = sum_list xs / real (length xs)"

definition varReal :: "real list \<Rightarrow> real" where
  "varReal xs = meanReal (map (\<lambda>x. (x - meanReal xs)\<^sup>2) xs)"

section \<open>Example data\<close>

text \<open>
  Concrete inputs at which the theorems below are instantiated: events at one place
  (latitude 13, longitude 100), \<open>day\<close> days after the epoch, and 31 of them on
  consecutive days; the parameters of the form; a session that holds rows and no
  prediction yet; a trainer whose model predicts one half for every event, and a trainer
  that throws.
\<close>

definition sampleEvent :: "real \<Rightarrow> real \<Rightarrow> event" where
  "sampleEvent day m =
     \<lparr>date = Date (Fin (day * 86400000)), lat = Fin 13, lon = Fin 100, mag = Fin m,
      locate = ''Bangkok''\<rparr>"

definition sampleRows :: "event list" where
  "sampleRows = map (\<lambda>i. sampleEvent (real i) 3) [0 ..< 31]"

definition sampleConfig :: config where
  "sampleConfig =
     \<lparr>cellKm = Fin 50, lookbackDays = Fin 30, horizonDays = Fin 35, magThreshold = Fin 4\<rparr>"

definition sampleApp :: "event list \<Rightarrow> app" where
  "sampleApp rs =
     \<lparr>localData = rs, predictions = [], nextPrediction = None, trainingStatus = Idle,
      statusLog = [], alerts = []\<rparr>"

definition constantTrainer :: trainer where
  "constantTrainer xNorm labels = Some (\<lambda>x. Fin (1 / 2))"

definition failingTrainer :: trainer where
  "failingTrainer xNorm labels = None"

section \<open>Properties of \<open>haversineKm\<close>\<close>

lemma hav_arg_bounds:
  fixes u v p t :: real
  assumes p: "2 * p = v - u"
  shows "0 \<le> (sin p)\<^sup>2 + cos u * cos v * (sin t)\<^sup>2"
    and "(sin p)\<^sup>2 + cos u * cos v * (sin t)\<^sup>2 \<le> 1"
proof -
  define s where "s = (sin t)\<^sup>2"
  define c1 where "c1 = cos (v - u)"
  define c2 where "c2 = cos (u + v)"
  have s01: "0 \<le> s" "s \<le> 1" unfolding s_def by (simp_all add: abs_square_le_1)
  have c1b: "- 1 \<le> c1" "c1 \<le> 1" unfolding c1_def by simp_all
  have c2b: "- 1 \<le> c2" "c2 \<le> 1" unfolding c2_def by simp_all
  have "cos (2 * p) = 1 - 2 * (sin p)\<^sup>2" by (rule cos_double_sin)
  then have half: "(sin p)\<^sup>2 = (1 - c1) / 2"
    unfolding c1_def p by simp
  have prod: "cos u * cos v = (c1 + c2) / 2"
    unfolding c1_def c2_def by (simp add: cos_diff cos_add)
  have a_eq: "(sin p)\<^sup>2 + cos u * cos v * (sin t)\<^sup>2 = ((1 - s) * (1 - c1) + s * (1 + c2)) / 2"
    unfolding half prod s_def [symmetric] by (simp add: field_simps)
  have p1: "0 \<le> (1 - s) * (1 - c1)" using s01 c1b by simp
  have p2: "0 \<le> s * (1 + c2)" using s01 c2b by simp
  have q1: "(1 - s) * (1 - c1) \<le> (1 - s) * 2" using s01 c1b by (intro mult_left_mono) simp_all
  have q2: "s * (1 + c2) \<le> s * 2" using s01 c2b by (intro mult_left_mono) simp_all
  show "0 \<le> (sin p)\<^sup>2 + cos u * cos v * (sin t)\<^sup>2" unfolding a_eq using p1 p2 by simp
  show "(sin p)\<^sup>2 + cos u * cos v * (sin t)\<^sup>2 \<le> 1" unfolding a_eq using q1 q2 by simp
qed

lemma haversineKm_finite:
  fixes aLat aLon bLat bLon :: real
  defines "a \<equiv> (sin ((bLat - aLat) * Math_PI / 180 / 2))\<^sup>2
        + cos (aLat * Math_PI / 180) * cos (bLat * Math_PI / 180) * (sin ((bLon - aLon) * Math_PI / 180 / 2))\<^sup>2"
  shows "haversineKm (Fin aLat) (Fin aLon) (Fin bLat) (Fin bLon) = Fin (2 * 6371 * arcsin (sqrt a))"
    and "0 \<le> a" and "a \<le> 1"
proof -
  have p: "2 * ((bLat - aLat) * Math_PI / 180 / 2) = bLat * Math_PI / 180 - aLat * Math_PI / 180"
    by (simp add: algebra_simps diff_divide_distrib)
  show a0: "0 \<le> a" unfolding a_def by (rule hav_arg_bounds(1) [OF p])
  show a1: "a \<le> 1" unfolding a_def by (rule hav_arg_bounds(2) [OF p])
  have dLat: "jdiv (toRad (jsub (Fin bLat) (Fin aLat))) (Fin 2) = Fin ((bLat - aLat) * Math_PI / 180 / 2)"
    by (simp add: toRad_def jsub_def)
  have dLon: "jdiv (toRad (jsub (Fin bLon) (Fin aLon))) (Fin 2) = Fin ((bLon - aLon) * Math_PI / 180 / 2)"
    by (simp add: toRad_def jsub_def)
  have lat1: "toRad (Fin aLat) = Fin (aLat * Math_PI / 180)" by (simp add: toRad_def)
  have lat2: "toRad (Fin bLat) = Fin (bLat * Math_PI / 180)" by (simp add: toRad_def)
  have inner: "jadd (jsquare (Math_sin (jdiv (toRad (jsub (Fin bLat) (Fin aLat))) (Fin 2))))
                  (jmul (jmul (Math_cos (toRad (Fin aLat))) (Math_cos (toRad (Fin bLat))))
                        (jsquare (Math_sin (jdiv (toRad (jsub (Fin bLon) (Fin aLon))) (Fin 2))))) = Fin a"
    unfolding dLat dLon lat1 lat2 a_def by simp
  have sq: "Math_sqrt (Fin a) = Fin (sqrt a)" using a0 by simp
  have s1: "sqrt a \<le> 1" using a1 by simp
  have s0: "0 \<le> sqrt a" using a0 by simp
  have s2: "- 1 \<le> sqrt a" using s0 by linarith
  have as: "Math_asin (Fin (sqrt a)) = Fin (arcsin (sqrt a))" using s2 s1 by simp
  show "haversineKm (Fin aLat) (Fin aLon) (Fin bLat) (Fin bLon) = Fin (2 * 6371 * arcsin (sqrt a))"
    unfolding haversineKm_def Let_def inner sq as by simp
qed

text \<open>
  Claim C9.  For all pairs of finite coordinates the great-circle distance is a finite,
  non-negative number, the distance from a point to itself is \<open>0\<close>, and the distance
  is symmetric.
\<close>

theorem haversineKm_metric:
  "(\<exists>d. haversineKm (Fin aLat) (Fin aLon) (Fin bLat) (Fin bLon) = Fin d \<and> 0 \<le> d)
  \<and> haversineKm (Fin aLat) (Fin aLon) (Fin aLat) (Fin aLon) = Fin 0
  \<and> haversineKm (Fin aLat) (Fin aLon) (Fin bLat) (Fin bLon) = haversineKm (Fin bLat) (Fin bLon) (Fin aLat) (Fin aLon)"
proof (intro conjI)
  have "0 \<le> arcsin (sqrt ((sin ((bLat - aLat) * Math_PI / 180 / 2))\<^sup>2
        + cos (aLat * Math_PI / 180) * cos (bLat * Math_PI / 180) * (sin ((bLon - aLon) * Math_PI / 180 / 2))\<^sup>2))"
    using haversineKm_finite(2,3) [of bLat aLat bLon aLon]
    by (intro arcsin_nonneg) simp
  then show "\<exists>d. haversineKm (Fin aLat) (Fin aLon) (Fin bLat) (Fin bLon) = Fin d \<and> 0 \<le> d"
    unfolding haversineKm_finite(1) by simp
  show "haversineKm (Fin aLat) (Fin aLon) (Fin aLat) (Fin aLon) = Fin 0"
    unfolding haversineKm_finite(1) by simp
  have m: "(sin ((aLat - bLat) * Math_PI / 180 / 2))\<^sup>2 = (sin ((bLat - aLat) * Math_PI / 180 / 2))\<^sup>2" for aLat bLat :: real
  proof -
    have "(aLat - bLat) * Math_PI / 180 / 2 = - ((bLat - aLat) * Math_PI / 180 / 2)" by (simp add: field_simps)
    then show ?thesis by (simp only: sin_minus power2_minus)
  qed
  show "haversineKm (Fin aLat) (Fin aLon) (Fin bLat) (Fin bLon) = haversineKm (Fin bLat) (Fin bLon) (Fin aLat) (Fin aLon)"
    unfolding haversineKm_finite(1) m [of aLat bLat] m [of aLon bLon] by (simp add: mult.commute)
qed

section \<open>Properties of \<open>groupByGrid\<close>\<close>

lemma firstKeys_snoc:
  "firstKeys km (rs @ [r]) =
     (if cellOf km r \<in> set (firstKeys km rs) then firstKeys km rs
      else firstKeys km rs @ [cellOf km r])"
  by (simp add: firstKeys_def)

lemma set_firstKeys: "set (firstKeys km rs) = cellOf km ` set rs"
  by (simp add: firstKeys_def)

lemma distinct_firstKeys: "distinct (firstKeys km rs)"
  by (simp add: firstKeys_def)

lemma gridAdd_step:
  "gridAdd km (map (\<lambda>k. (k, cellFor km rs k)) (firstKeys km rs)) r
     = map (\<lambda>k. (k, cellFor km (rs @ [r]) k)) (firstKeys km (rs @ [r]))"
proof (cases "cellOf km r \<in> set (firstKeys km rs)")
  case True
  then show ?thesis
    by (simp add: gridAdd_def firstKeys_snoc cellFor_def comp_def image_iff)
next
  case False
  then have "cellOf km r \<notin> cellOf km ` set rs" by (simp add: set_firstKeys)
  then have "filter (\<lambda>x. cellOf km x = cellOf km r) rs = []"
    by (auto simp: filter_empty_conv) (metis imageI)
  with False show ?thesis
    by (auto simp add: gridAdd_def firstKeys_snoc cellFor_def comp_def image_iff Let_def
          intro!: map_cong)
qed

lemma groupByGrid_foldl:
  "foldl (gridAdd km) (map (\<lambda>k. (k, cellFor km rs k)) (firstKeys km rs)) rs'
     = map (\<lambda>k. (k, cellFor km (rs @ rs') k)) (firstKeys km (rs @ rs'))"
proof (induction rs' arbitrary: rs)
  case Nil
  then show ?case by simp
next
  case (Cons r rs')
  show ?case using Cons.IH [of "rs @ [r]"] by (simp add: gridAdd_step)
qed

lemma groupByGrid_eq:
  "groupByGrid rs km = map (\<lambda>k. (k, cellFor km rs k)) (firstKeys km rs)"
  using groupByGrid_foldl [of km "[]" rs] by (simp add: groupByGrid_def firstKeys_def)

lemma cos_taylor:
  fixes x :: real
  shows "1 - x\<^sup>2 / 2 - x ^ 4 / 24 \<le> cos x" and "cos x \<le> 1 - x\<^sup>2 / 2 + x ^ 4 / 24"
proof -
  obtain t where c: "cos x = (\<Sum>m<4. cos_coeff m * x ^ m) + (cos (t + 1 / 2 * real (4::nat) * pi) / fact 4) * x ^ 4"
    using Maclaurin_cos_expansion [of x 4] by blast
  have "{..<4::nat} = {0, 1, 2, 3}" by auto
  then have s: "(\<Sum>m<4. cos_coeff m * x ^ m) = 1 - x\<^sup>2 / 2"
    by (simp add: cos_coeff_def fact_numeral)
  have f: "fact 4 = (24::real)" by (simp add: fact_numeral)
  define k where "k = cos (t + 1 / 2 * real (4::nat) * pi)"
  have k: "- 1 \<le> k" "k \<le> 1" unfolding k_def by simp_all
  have x4: "0 \<le> x ^ 4 / 24" by simp
  have e: "cos x = 1 - x\<^sup>2 / 2 + k * (x ^ 4 / 24)"
    unfolding c s f k_def by simp
  have "- (x ^ 4 / 24) \<le> k * (x ^ 4 / 24)"
    using mult_right_mono [OF k(1) x4] by simp
  then show "1 - x\<^sup>2 / 2 - x ^ 4 / 24 \<le> cos x" unfolding e by simp
  have "k * (x ^ 4 / 24) \<le> x ^ 4 / 24"
    using mult_right_mono [OF k(2) x4] by simp
  then show "cos x \<le> 1 - x\<^sup>2 / 2 + x ^ 4 / 24" unfolding e by simp
qed

lemma cos_latitude_60:
  "2 / 5 < cos (60 * Math_PI / 180)" "cos (60 * Math_PI / 180) < 3 / 5"
proof -
  let ?x = "60 * Math_PI / 180"
  have lo: "2 / 5 < 1 - ?x\<^sup>2 / 2 - ?x ^ 4 / 24" by (simp add: Math_PI_def power2_eq_square power4_eq_xxxx)
  have hi: "1 - ?x\<^sup>2 / 2 + ?x ^ 4 / 24 < 3 / 5" by (simp add: Math_PI_def power2_eq_square power4_eq_xxxx)
  show "2 / 5 < cos ?x" using lo cos_taylor(1) [of ?x] by linarith
  show "cos ?x < 3 / 5" using hi cos_taylor(2) [of ?x] by linarith
qed


lemma cos_taylor24:
  fixes x :: real
  shows "\<bar>cos x - (\<Sum>m<24. cos_coeff m * x ^ m)\<bar> \<le> \<bar>x\<bar> ^ 24 / fact 24"
proof -
  obtain t where c: "cos x = (\<Sum>m<24. cos_coeff m * x ^ m)
      + (cos (t + 1 / 2 * real (24::nat) * pi) / fact 24) * x ^ 24"
    using Maclaurin_cos_expansion [of x 24] by blast
  have "\<bar>cos x - (\<Sum>m<24. cos_coeff m * x ^ m)\<bar>
      = \<bar>cos (t + 1 / 2 * real (24::nat) * pi)\<bar> * (\<bar>x\<bar> ^ 24 / fact 24)"
    unfolding c by (simp add: abs_mult power_abs)
  also have "\<dots> \<le> 1 * (\<bar>x\<bar> ^ 24 / fact 24)"
    by (rule mult_right_mono) simp_all
  finally show ?thesis by simp
qed

lemma taylor24_scaled:
  fixes a b :: real
  assumes "0 < b"
  shows "(\<Sum>m<24. cos_coeff m * (a / b) ^ m)
    = (620448401733239439360000 * a ^ 0 * b ^ 24
        - 310224200866619719680000 * a ^ 2 * b ^ 22
        + 25852016738884976640000 * a ^ 4 * b ^ 20 - 861733891296165888000 * a ^ 6 * b ^ 18
        + 15388105201717248000 * a ^ 8 * b ^ 16 - 170978946685747200 * a ^ 10 * b ^ 14
        + 1295295050649600 * a ^ 12 * b ^ 12 - 7117005772800 * a ^ 14 * b ^ 10
        + 29654190720 * a ^ 16 * b ^ 8 - 96909120 * a ^ 18 * b ^ 6 + 255024 * a ^ 20 * b ^ 4
        - 552 * a ^ 22 * b ^ 2)
      / (620448401733239439360000 * b ^ 24)"
  using assms
  by (simp add: lessThan_nat_numeral cos_coeff_def fact_numeral power_divide field_simps) algebra

lemma cos_latitude_90:
  "0 < cos (90 * Math_PI / 180)" "cos (90 * Math_PI / 180) < 1 / 10 ^ 16"
proof -
  define a :: real where "a = 884279719003555"
  define b :: real where "b = 562949953421312"
  define p where "p =
        620448401733239439360000 * a ^ 0 * b ^ 24
        - 310224200866619719680000 * a ^ 2 * b ^ 22
        + 25852016738884976640000 * a ^ 4 * b ^ 20 - 861733891296165888000 * a ^ 6 * b ^ 18
        + 15388105201717248000 * a ^ 8 * b ^ 16 - 170978946685747200 * a ^ 10 * b ^ 14
        + 1295295050649600 * a ^ 12 * b ^ 12 - 7117005772800 * a ^ 14 * b ^ 10
        + 29654190720 * a ^ 16 * b ^ 8 - 96909120 * a ^ 18 * b ^ 6 + 255024 * a ^ 20 * b ^ 4
        - 552 * a ^ 22 * b ^ 2"
  have x: "90 * Math_PI / 180 = a / b" by (simp add: Math_PI_def a_def b_def)
  have b: "0 < b" by (simp add: b_def)
  have a: "0 \<le> a" by (simp add: a_def)
  have lo: "a ^ 24 < p" unfolding p_def a_def b_def by simp
  have hi: "(p + a ^ 24) * 10 ^ 16 < 620448401733239439360000 * b ^ 24"
    unfolding p_def a_def b_def by simp
  have s: "(\<Sum>m<24. cos_coeff m * (a / b) ^ m) = p / (620448401733239439360000 * b ^ 24)"
    unfolding p_def by (rule taylor24_scaled [OF b])
  have r: "\<bar>a / b\<bar> ^ 24 / fact 24 = a ^ 24 / (620448401733239439360000 * b ^ 24)"
    using a b by (simp add: power_divide fact_numeral)
  have d: "0 < 620448401733239439360000 * b ^ 24" using b by simp
  from cos_taylor24 [of "a / b"]
  have l: "(p - a ^ 24) / (620448401733239439360000 * b ^ 24) \<le> cos (a / b)"
    and u: "cos (a / b) \<le> (p + a ^ 24) / (620448401733239439360000 * b ^ 24)"
    unfolding s r by (simp_all add: diff_divide_distrib add_divide_distrib abs_le_iff)
  have "0 < (p - a ^ 24) / (620448401733239439360000 * b ^ 24)" using lo d by simp
  with l show "0 < cos (90 * Math_PI / 180)" unfolding x by linarith
  have "(p + a ^ 24) / (620448401733239439360000 * b ^ 24) < 1 / 10 ^ 16"
    using hi d by (simp add: field_simps)
  with u show "cos (90 * Math_PI / 180) < 1 / 10 ^ 16" unfolding x by linarith
qed

text \<open>
  Claim C1.  With cells of 111 km, where \<open>degLat\<close> is \<open>1\<close>: for an event at latitude
  60 and longitude 1.2, \<open>groupByGrid\<close> divides the longitude by \<open>degLat * cos(lat)\<close>
  and gives \<open>gx = 2\<close>, where the division by \<open>degLat / cos(lat)\<close> gives \<open>0\<close>.  For
  an event at latitude 90 and longitude 1 the product \<open>degLat * cos(lat)\<close> is not
  \<open>0\<close>, so the divisor is not \<open>1\<close>, and \<open>gx\<close> is not \<open>1\<close> but more than ten
  thousand million million.
\<close>

theorem groupByGrid_longitude_cell:
  "cellOf (Fin 111) \<lparr>date = d, lat = Fin 60, lon = Fin (6 / 5), mag = m, locate = l\<rparr>
     = (Fin 2, Fin 60)
   \<and> groupByGrid [\<lparr>date = d, lat = Fin 60, lon = Fin (6 / 5), mag = m, locate = l\<rparr>] (Fin 111)
       = [((Fin 2, Fin 60),
           \<lparr>gx = Fin 2, gy = Fin 60, degLat = Fin 1,
            rows = [\<lparr>date = d, lat = Fin 60, lon = Fin (6 / 5), mag = m, locate = l\<rparr>]\<rparr>)]
   \<and> Math_floor (jdiv (Fin (6 / 5)) (jdiv (jdiv (Fin 111) (Fin 111))
         (Math_cos (jdiv (jmul (Fin 60) (Fin Math_PI)) (Fin 180))))) = Fin 0
   \<and> (\<exists>n. 10 ^ 16 \<le> n
         \<and> cellOf (Fin 111) \<lparr>date = d, lat = Fin 90, lon = Fin 1, mag = m, locate = l\<rparr>
             = (Fin (of_int n), Fin 90))"
proof -
  have "60 * Math_PI / 180 = Math_PI / 3" by simp
  then have c: "2 / 5 < cos (Math_PI / 3)" "cos (Math_PI / 3) < 3 / 5"
    using cos_latitude_60 by simp_all
  then have ne: "cos (Math_PI / 3) \<noteq> 0" by simp
  have "2 \<le> 6 / (5 * cos (Math_PI / 3))" "6 / (5 * cos (Math_PI / 3)) < 3"
    using c by (simp_all add: field_simps)
  then have f1: "\<lfloor>6 / (5 * cos (Math_PI / 3))\<rfloor> = 2" by linarith
  have "0 \<le> 6 * cos (Math_PI / 3) / 5" "6 * cos (Math_PI / 3) / 5 < 1"
    using c by simp_all
  then have f2: "\<lfloor>6 * cos (Math_PI / 3) / 5\<rfloor> = 0" by linarith
  have cell: "cellOf (Fin 111) \<lparr>date = d, lat = Fin 60, lon = Fin (6 / 5), mag = m, locate = l\<rparr>
      = (Fin 2, Fin 60)"
    by (simp add: cellOf_def Let_def jor_def ne f1)
  have claim: "Math_floor (jdiv (Fin (6 / 5)) (jdiv (jdiv (Fin 111) (Fin 111))
         (Math_cos (jdiv (jmul (Fin 60) (Fin Math_PI)) (Fin 180))))) = Fin 0"
    by (simp add: ne f2)
  have grid: "groupByGrid [\<lparr>date = d, lat = Fin 60, lon = Fin (6 / 5), mag = m, locate = l\<rparr>] (Fin 111)
       = [((Fin 2, Fin 60),
           \<lparr>gx = Fin 2, gy = Fin 60, degLat = Fin 1,
            rows = [\<lparr>date = d, lat = Fin 60, lon = Fin (6 / 5), mag = m, locate = l\<rparr>]\<rparr>)]"
    by (simp only: groupByGrid_def) (simp add: gridAdd_def cell)
  have "90 * Math_PI / 180 = Math_PI / 2" by simp
  then have p: "0 < cos (Math_PI / 2)" "cos (Math_PI / 2) < 1 / 10 ^ 16"
    using cos_latitude_90 by simp_all
  then have pne: "cos (Math_PI / 2) \<noteq> 0" by simp
  have "10 ^ 16 < 1 / cos (Math_PI / 2)" using p by (simp add: field_simps)
  then have big: "10 ^ 16 \<le> \<lfloor>1 / cos (Math_PI / 2)\<rfloor>" by (simp add: le_floor_iff)
  have pole: "cellOf (Fin 111) \<lparr>date = d, lat = Fin 90, lon = Fin 1, mag = m, locate = l\<rparr>
      = (Fin (of_int \<lfloor>1 / cos (Math_PI / 2)\<rfloor>), Fin 90)"
    by (simp add: cellOf_def Let_def jor_def pne)
  from cell grid claim big pole show ?thesis by blast
qed

text \<open>
  The cell that the source computes in general, for finite coordinates, a cell size other
  than \<open>0\<close> and a latitude whose cosine is not \<open>0\<close>.
\<close>

lemma cellOf_finite:
  assumes "km \<noteq> 0" "cos (la * Math_PI / 180) \<noteq> 0"
  shows "cellOf (Fin km) \<lparr>date = d, lat = Fin la, lon = Fin lo, mag = m, locate = l\<rparr>
    = (Fin (of_int \<lfloor>lo / (km / 111 * cos (la * Math_PI / 180))\<rfloor>), Fin (of_int \<lfloor>la / (km / 111)\<rfloor>))"
  using assms by (simp add: cellOf_def Let_def jor_def)

section \<open>Properties of \<open>buildDataset\<close>\<close>

lemma length_insertBy: "length (insertBy cmp x xs) = Suc (length xs)"
  by (induction xs) simp_all

lemma length_sortBy: "length (sortBy cmp xs) = length xs"
  by (induction xs) (simp_all add: sortBy_def length_insertBy)

lemma set_insertBy: "set (insertBy cmp x xs) = insert x (set xs)"
  by (induction xs) auto

lemma set_sortBy: "set (sortBy cmp xs) = set xs"
  by (induction xs) (simp_all add: sortBy_def set_insertBy)

lemma push_examples:
  "aligned ds \<Longrightarrow> aligned (push ds e) \<and> examples (push ds e) = examples ds @ [e]"
  by (cases e) (simp add: aligned_def push_def examples_def)

lemma foldl_push:
  "aligned ds \<Longrightarrow>
     aligned (foldl (\<lambda>acc i. push acc (f i)) ds is)
     \<and> examples (foldl (\<lambda>acc i. push acc (f i)) ds is) = examples ds @ map f is"
proof (induction "is" arbitrary: ds)
  case Nil
  then show ?case by simp
next
  case (Cons i "is")
  from push_examples [OF Cons.prems, of "f i"]
  have a: "aligned (push ds (f i))" and e: "examples (push ds (f i)) = examples ds @ [f i]"
    by simp_all
  from Cons.IH [OF a] show ?case by (simp add: e)
qed

lemma cellLoop_examples:
  assumes "aligned ds"
  shows "aligned (cellLoop cfg ds kc)"
    and "examples (cellLoop cfg ds kc) = examples ds @ cellExamples cfg (snd kc)"
  using foldl_push [OF assms, of "example cfg (snd kc) (sortBy byDate (rows (snd kc)))"
      "[0 ..< length (rows (snd kc)) - 1]"]
  by (simp_all add: cellLoop_def cellExamples_def Let_def length_sortBy)

lemma foldl_cellLoop:
  "aligned ds \<Longrightarrow>
     aligned (foldl (cellLoop cfg) ds g)
     \<and> examples (foldl (cellLoop cfg) ds g) = examples ds @ concat (map (\<lambda>kc. cellExamples cfg (snd kc)) g)"
proof (induction g arbitrary: ds)
  case Nil
  then show ?case by simp
next
  case (Cons kc g)
  from Cons.IH [OF cellLoop_examples(1) [OF Cons.prems, of cfg kc]]
  show ?case by (simp add: cellLoop_examples(2) [OF Cons.prems])
qed

lemma buildDataset_examples:
  "examples (buildDataset cfg rs)
     = concat (map (\<lambda>kc. cellExamples cfg (snd kc)) (groupByGrid rs (cellKm cfg)))"
  and buildDataset_aligned: "aligned (buildDataset cfg rs)"
  using foldl_cellLoop [of "\<lparr>X = [], y = [], metas = []\<rparr>" cfg "groupByGrid rs (cellKm cfg)"]
  by (simp_all add: buildDataset_def aligned_def examples_def)

lemma length_examples: "aligned ds \<Longrightarrow> length (examples ds) = length (X ds)"
  by (simp add: aligned_def examples_def)

lemma length_cellExamples: "length (cellExamples cfg c) = length (rows c) - 1"
  by (simp add: cellExamples_def)

lemma length_X_buildDataset:
  "length (X (buildDataset cfg rs))
     = (\<Sum>k\<leftarrow>firstKeys (cellKm cfg) rs. length (filter (\<lambda>r. cellOf (cellKm cfg) r = k) rs) - 1)"
  using length_examples [OF buildDataset_aligned, of cfg rs]
  by (simp add: buildDataset_examples groupByGrid_eq length_concat comp_def length_cellExamples
        cellFor_def)

lemma sum_list_indicator:
  "distinct ks \<Longrightarrow> (\<Sum>k\<leftarrow>ks. if a = k then 1 else 0) = (if a \<in> set ks then 1 else (0::nat))"
  by (induction ks) auto

lemma sum_length_filter:
  "distinct ks \<Longrightarrow> f ` set rs \<subseteq> set ks \<Longrightarrow>
     (\<Sum>k\<leftarrow>ks. length (filter (\<lambda>r. f r = k) rs)) = length rs"
proof (induction rs)
  case Nil
  then show ?case by simp
next
  case (Cons r rs)
  have "(\<Sum>k\<leftarrow>ks. length (filter (\<lambda>r. f r = k) (r # rs)))
      = (\<Sum>k\<leftarrow>ks. length (filter (\<lambda>r. f r = k) rs) + (if f r = k then 1 else 0))"
    by (intro arg_cong [where f = sum_list] map_cong) simp_all
  also have "\<dots> = (\<Sum>k\<leftarrow>ks. length (filter (\<lambda>r. f r = k) rs)) + (\<Sum>k\<leftarrow>ks. if f r = k then 1 else 0)"
    by (simp add: sum_list_addf)
  also have "\<dots> = length rs + 1"
    using Cons by (simp add: sum_list_indicator)
  finally show ?case by simp
qed

lemma sum_list_pred:
  "(\<And>k. k \<in> set ks \<Longrightarrow> 0 < g k) \<Longrightarrow> (\<Sum>k\<leftarrow>ks. g k - 1) + length ks = (\<Sum>k\<leftarrow>ks. (g k :: nat))"
  by (induction ks) (auto simp: Suc_leI add.commute add.left_commute)

lemma cell_nonempty:
  "k \<in> set (firstKeys km rs) \<Longrightarrow> 0 < length (filter (\<lambda>r. cellOf km r = k) rs)"
  by (auto simp: set_firstKeys filter_empty_conv)

lemma count_buildDataset:
  "length (X (buildDataset cfg rs)) + length (groupByGrid rs (cellKm cfg)) = length rs"
proof -
  have "length (X (buildDataset cfg rs)) + length (firstKeys (cellKm cfg) rs)
      = (\<Sum>k\<leftarrow>firstKeys (cellKm cfg) rs. length (filter (\<lambda>r. cellOf (cellKm cfg) r = k) rs))"
    unfolding length_X_buildDataset by (rule sum_list_pred) (rule cell_nonempty)
  also have "\<dots> = length rs"
    by (rule sum_length_filter) (simp_all add: distinct_firstKeys set_firstKeys)
  finally show ?thesis by (simp add: groupByGrid_eq)
qed

lemma groupByGrid_nonempty: "rs \<noteq> [] \<Longrightarrow> groupByGrid rs km \<noteq> []"
  by (cases rs) (auto simp: groupByGrid_eq firstKeys_def)


lemma example_meta:
  "snd (snd (example cfg c srt i))
     = \<lparr>cell = (gx c, gy c), time = getTime (date (srt ! i)), source = locate (srt ! i)\<rparr>"
  by (simp add: example_def Let_def)




lemma map_butlast_nth:
  "map (\<lambda>i. f (xs ! i)) [0 ..< length xs - 1] = map f (butlast xs)"
  by (rule nth_equalityI) (simp_all add: nth_butlast)

lemma cellExamples_times:
  "map (\<lambda>e. time (snd (snd e))) (cellExamples cfg c)
     = map (\<lambda>r. getTime (date r)) (butlast (sortBy byDate (rows c)))"
  using map_butlast_nth [of "\<lambda>r. getTime (date r)" "sortBy byDate (rows c)"]
  by (simp add: cellExamples_def comp_def example_meta length_sortBy)







section \<open>Properties of \<open>trainAndPredict\<close>\<close>

lemma localData_setTrainingStatus: "localData (setTrainingStatus st s) = localData s"
  by (simp add: setTrainingStatus_def)

lemma trainAndPredict_few_rows:
  "length (localData s) < 30 \<Longrightarrow>
     trainAndPredict fit cfg s
       = setTrainingStatus Idle (raiseAlert NotEnoughRows (setTrainingStatus Preparing s))"
  by (simp add: trainAndPredict_def Let_def setTrainingStatus_def)

lemma trainAndPredict_few_examples:
  "\<not> length (localData s) < 30 \<Longrightarrow> length (X (buildDataset cfg (localData s))) < 30 \<Longrightarrow>
     trainAndPredict fit cfg s
       = setTrainingStatus Idle (raiseAlert TooFewExamples (setTrainingStatus Preparing s))"
  by (simp add: trainAndPredict_def Let_def setTrainingStatus_def)

lemma trainAndPredict_enough:
  assumes "\<not> length (localData s) < 30" "\<not> length (X (buildDataset cfg (localData s))) < 30"
  shows "trainAndPredict fit cfg s =
     (let rs = localData s; ds = buildDataset cfg rs;
          s2 = setTrainingStatus Training (setTrainingStatus Preparing s);
          mean = fst (moments (X ds)); std = stdOf (snd (moments (X ds)))
      in case fit (map (normalizeRow mean std) (X ds)) (y ds) of
           None \<Rightarrow> setTrainingStatus Failed s2
         | Some model \<Rightarrow>
             setTrainingStatus Done
               ((setTrainingStatus Scoring s2)
                  \<lparr>predictions := rev (map (\<lambda>r. withProbability r
                        (model (normalizeRow mean std (inferFeatures cfg rs r)))) rs),
                    nextPrediction :=
                      (case sortBy byProbabilityDesc (rev (map (\<lambda>r. withProbability r
                        (model (normalizeRow mean std (inferFeatures cfg rs r)))) rs)) of
                         [] \<Rightarrow> None | p # _ \<Rightarrow> Some p)\<rparr>))"
  using assms
  by (simp add: trainAndPredict_def Let_def localData_setTrainingStatus split_beta
        split: option.split)

lemma truncate_withProbability: "event.truncate (withProbability r p) = r"
  by (simp add: withProbability_def event.truncate_def)



lemma same_cell_grid:
  assumes "rs \<noteq> []" "\<And>r. r \<in> set rs \<Longrightarrow> cellOf km r = k"
  shows "length (groupByGrid rs km) = 1"
proof -
  have "set (firstKeys km rs) = {k}"
    using assms by (auto simp: set_firstKeys) (metis imageI last_in_set)
  then have "card (set (firstKeys km rs)) = 1" by simp
  then have "length (firstKeys km rs) = 1"
    by (simp add: distinct_card [OF distinct_firstKeys])
  then show ?thesis by (simp add: groupByGrid_eq)
qed

section \<open>Properties of the parsers\<close>

lemmas num_defs = toNumber_def trim_def isWhiteSpace_def nonDecimal_def signOf_def scanUnsignedDecimal_def
  scanExponent_def isDigit_def digitVal_def digitsValue_def pow10_def radixValue_def hexVal_def
  parseFloat_def parseInt10_def trimStart_def

lemmas date_defs = parseLocalDate_def strTruthy_def strOrDefault_def replaceAll_def argAt_def
  jgt_def jsub_def

text \<open>
  \<open>parseLocalDate\<close> returns \<open>null\<close> for a missing or empty date string only: every
  other string gives a \<open>Date\<close> object, valid or not.
\<close>

lemma parseLocalDate_null_iff:
  "parseLocalDate tza dateParse dateStr timeStr = None \<longleftrightarrow> \<not> strTruthy dateStr"
  by (simp add: parseLocalDate_def Let_def split_beta)

text \<open>
  Claim C3.  A row whose date is \<open>aa/bb/cc\<close> has three tokens, none of them a number:
  \<open>parseLocalDate\<close> returns an invalid \<open>Date\<close>, not \<open>null\<close>, and \<open>handleFile\<close>
  keeps the row.
\<close>

theorem handleFile_keeps_invalid_date:
  "parseLocalDate tza dateParse (Some ''aa/bb/cc'') None = Some (Date NaN)
   \<and> parseRow tza dateParse [''DATE'' \<mapsto> ''aa/bb/cc'', ''LAT'' \<mapsto> ''13.5'', ''LONG'' \<mapsto> ''100.5'', ''M'' \<mapsto> ''4.2'']
       = Some \<lparr>date = Date NaN, lat = Fin (27 / 2), lon = Fin (201 / 2), mag = Fin (21 / 5), locate = ''-''\<rparr>
   \<and> handleFile tza dateParse [[''DATE'' \<mapsto> ''aa/bb/cc'', ''LAT'' \<mapsto> ''13.5'', ''LONG'' \<mapsto> ''100.5'', ''M'' \<mapsto> ''4.2'']]
       = [\<lparr>date = Date NaN, lat = Fin (27 / 2), lon = Fin (201 / 2), mag = Fin (21 / 5), locate = ''-''\<rparr>]"
proof -
  have d: "parseLocalDate tza dateParse (Some ''aa/bb/cc'') None = Some (Date NaN)"
    by (simp add: date_defs num_defs newDate_def MakeDay_def MakeDate_def TimeClip_def UTC_def)
  have r: "parseRow tza dateParse [''DATE'' \<mapsto> ''aa/bb/cc'', ''LAT'' \<mapsto> ''13.5'', ''LONG'' \<mapsto> ''100.5'', ''M'' \<mapsto> ''4.2'']
       = Some \<lparr>date = Date NaN, lat = Fin (27 / 2), lon = Fin (201 / 2), mag = Fin (21 / 5), locate = ''-''\<rparr>"
    by (simp add: parseRow_def d strOr_def strTruthy_def strOrDefault_def isNaN_def num_defs)
  show ?thesis
    by (simp add: d r handleFile_def List.map_filter_def sortBy_def)
qed

text \<open>
  Claim C7.  \<open>31/12/2023\<close> and \<open>2023-12-31\<close> parse to the same date, the local
  midnight of 31 December 2023 (month index 11, day 19722 since the epoch), and so do the
  same dates with the Buddhist-era year 2566.
\<close>

theorem parseLocalDate_same_calendar_date:
  "parseLocalDate tza dateParse (Some ''31/12/2023'') None
     = Some (newDate tza (Fin 2023) (Fin 11) (Fin 31) (Fin 0) (Fin 0) (Fin 0))
   \<and> parseLocalDate tza dateParse (Some ''2023-12-31'') None
     = Some (newDate tza (Fin 2023) (Fin 11) (Fin 31) (Fin 0) (Fin 0) (Fin 0))
   \<and> parseLocalDate tza dateParse (Some ''31/12/2566'') None
     = Some (newDate tza (Fin 2023) (Fin 11) (Fin 31) (Fin 0) (Fin 0) (Fin 0))
   \<and> parseLocalDate tza dateParse (Some ''2566-12-31'') None
     = Some (newDate tza (Fin 2023) (Fin 11) (Fin 31) (Fin 0) (Fin 0) (Fin 0))
   \<and> MakeDay (Fin 2023) (Fin 11) (Fin 31) = Fin 19722
   \<and> newDate (\<lambda>t. 0) (Fin 2023) (Fin 11) (Fin 31) (Fin 0) (Fin 0) (Fin 0) = Date (Fin 1703980800000)"
proof (intro conjI)
  show "MakeDay (Fin 2023) (Fin 11) (Fin 31) = Fin 19722"
    by (simp add: MakeDay_def truncReal_def DayFromYear_def monthStart_def InLeapYear_def)
  then show "newDate (\<lambda>t. 0) (Fin 2023) (Fin 11) (Fin 31) (Fin 0) (Fin 0) (Fin 0) = Date (Fin 1703980800000)"
    by (simp add: newDate_def truncReal_def MakeTime_def MakeDate_def UTC_def TimeClip_def)
qed (simp_all add: date_defs num_defs)

section \<open>The training gate and the predictions\<close>

lemma sample_same_cell: "r \<in> set sampleRows \<Longrightarrow> cellOf km r = cellOf km (sampleEvent 0 3)"
  by (auto simp: sampleRows_def sampleEvent_def cellOf_def)

lemma length_sampleRows: "length sampleRows = 31"
  by (simp add: sampleRows_def)

lemma sample_examples_count: "length (X (buildDataset cfg sampleRows)) = 30"
proof -
  have "sampleRows \<noteq> []" using length_sampleRows by auto
  then have "length (groupByGrid sampleRows (cellKm cfg)) = 1"
    by (rule same_cell_grid) (rule sample_same_cell)
  with count_buildDataset [of cfg sampleRows] show ?thesis by (simp add: length_sampleRows)
qed

lemma sample_run_trained:
  "trainAndPredict constantTrainer cfg (sampleApp sampleRows)
     = setTrainingStatus Done
         ((setTrainingStatus Scoring (setTrainingStatus Training (setTrainingStatus Preparing (sampleApp sampleRows))))
            \<lparr>predictions := rev (map (\<lambda>r. withProbability r (Fin (1 / 2))) sampleRows),
              nextPrediction := (case sortBy byProbabilityDesc (rev (map (\<lambda>r. withProbability r (Fin (1 / 2))) sampleRows)) of
                 [] \<Rightarrow> None | p # _ \<Rightarrow> Some p)\<rparr>)"
proof -
  have a: "\<not> length (localData (sampleApp sampleRows)) < 30"
    by (simp add: sampleApp_def length_sampleRows)
  have b: "\<not> length (X (buildDataset cfg (localData (sampleApp sampleRows)))) < 30"
    by (simp add: sampleApp_def sample_examples_count)
  show ?thesis
    unfolding trainAndPredict_enough [OF a b]
    by (simp add: Let_def constantTrainer_def sampleApp_def)
qed

lemma sample_run_failed:
  "trainAndPredict failingTrainer cfg (sampleApp sampleRows)
     = setTrainingStatus Failed (setTrainingStatus Training (setTrainingStatus Preparing (sampleApp sampleRows)))"
proof -
  have a: "\<not> length (localData (sampleApp sampleRows)) < 30"
    by (simp add: sampleApp_def length_sampleRows)
  have b: "\<not> length (X (buildDataset cfg (localData (sampleApp sampleRows)))) < 30"
    by (simp add: sampleApp_def sample_examples_count)
  show ?thesis
    unfolding trainAndPredict_enough [OF a b]
    by (simp add: Let_def failingTrainer_def sampleApp_def)
qed

lemma hd_rev_sampleRows: "hd (rev sampleRows) = sampleEvent 30 3" "hd sampleRows = sampleEvent 0 3"
  by (simp_all add: sampleRows_def hd_rev upt_rec [of 0 31] hd_map last_map)

text \<open>
  Claim C4.  When the session holds fewer than 30 rows, or the dataset built from them has
  fewer than 30 examples, \<open>trainAndPredict\<close> ends with the empty status and one alert,
  which says which of the two counts is too small; the predictions and the headline
  prediction are unchanged, and the result does not depend on the trainer: no model is
  trained.  The status of a failed training is never the outcome of this refusal: a run
  that ends with it had passed both counts and raised no alert.
\<close>

theorem insufficient_data_refused:
  "(length (localData s) < 30 \<or> length (X (buildDataset cfg (localData s))) < 30 \<longrightarrow>
      trainingStatus (trainAndPredict fit cfg s) = Idle
    \<and> (alerts (trainAndPredict fit cfg s) = alerts s @ [NotEnoughRows]
        \<or> alerts (trainAndPredict fit cfg s) = alerts s @ [TooFewExamples])
    \<and> predictions (trainAndPredict fit cfg s) = predictions s
    \<and> nextPrediction (trainAndPredict fit cfg s) = nextPrediction s
    \<and> trainAndPredict fit cfg s = trainAndPredict fit' cfg s)
  \<and> (trainingStatus (trainAndPredict fit cfg s) = Failed \<longrightarrow>
      30 \<le> length (localData s) \<and> 30 \<le> length (X (buildDataset cfg (localData s)))
    \<and> alerts (trainAndPredict fit cfg s) = alerts s)"
proof (cases "length (localData s) < 30")
  case True
  show ?thesis
    by (simp add: trainAndPredict_few_rows [OF True] setTrainingStatus_def raiseAlert_def)
next
  case rows: False
  show ?thesis
  proof (cases "length (X (buildDataset cfg (localData s))) < 30")
    case True
    show ?thesis
      by (simp add: trainAndPredict_few_examples [OF rows True] setTrainingStatus_def raiseAlert_def)
  next
    case False
    show ?thesis using rows False
      by (simp add: trainAndPredict_enough [OF rows False] Let_def setTrainingStatus_def
            split: option.split)
  qed
qed

text \<open>
  The theorem at a session without rows, and at the 31 sample rows with a trainer that
  throws.
\<close>

theorem insufficient_data_refused_witness:
  "length (localData (sampleApp [])) < 30
   \<and> trainingStatus (trainAndPredict constantTrainer sampleConfig (sampleApp [])) = Idle
   \<and> alerts (trainAndPredict constantTrainer sampleConfig (sampleApp [])) = [NotEnoughRows]
   \<and> predictions (trainAndPredict constantTrainer sampleConfig (sampleApp [])) = []
   \<and> trainAndPredict constantTrainer sampleConfig (sampleApp [])
       = trainAndPredict failingTrainer sampleConfig (sampleApp [])
   \<and> trainingStatus (trainAndPredict failingTrainer sampleConfig (sampleApp sampleRows)) = Failed
   \<and> 30 \<le> length (X (buildDataset sampleConfig (localData (sampleApp sampleRows))))
   \<and> alerts (trainAndPredict failingTrainer sampleConfig (sampleApp sampleRows)) = []"
proof -
  have h1: "length (localData (sampleApp [])) < 30" by (simp add: sampleApp_def)
  have h2: "trainingStatus (trainAndPredict failingTrainer sampleConfig (sampleApp sampleRows)) = Failed"
    by (simp add: sample_run_failed setTrainingStatus_def)
  have n: "alerts (trainAndPredict constantTrainer sampleConfig (sampleApp [])) \<noteq> [TooFewExamples]"
    unfolding trainAndPredict_few_rows [OF h1]
    by (simp add: setTrainingStatus_def raiseAlert_def)
  from insufficient_data_refused [of "sampleApp []" sampleConfig constantTrainer failingTrainer] h1
  have a: "trainingStatus (trainAndPredict constantTrainer sampleConfig (sampleApp [])) = Idle"
    and b: "alerts (trainAndPredict constantTrainer sampleConfig (sampleApp [])) = alerts (sampleApp []) @ [NotEnoughRows]
        \<or> alerts (trainAndPredict constantTrainer sampleConfig (sampleApp [])) = alerts (sampleApp []) @ [TooFewExamples]"
    and c: "predictions (trainAndPredict constantTrainer sampleConfig (sampleApp [])) = predictions (sampleApp [])"
    and d: "trainAndPredict constantTrainer sampleConfig (sampleApp [])
       = trainAndPredict failingTrainer sampleConfig (sampleApp [])"
    by blast+
  from insufficient_data_refused [of "sampleApp sampleRows" sampleConfig failingTrainer failingTrainer] h2
  have e: "30 \<le> length (X (buildDataset sampleConfig (localData (sampleApp sampleRows))))"
    and f: "alerts (trainAndPredict failingTrainer sampleConfig (sampleApp sampleRows)) = alerts (sampleApp sampleRows)"
    by blast+
  from b n have b': "alerts (trainAndPredict constantTrainer sampleConfig (sampleApp [])) = [NotEnoughRows]"
    by (simp add: sampleApp_def)
  show ?thesis using h1 a b' c d h2 e f by (simp add: sampleApp_def)
qed

text \<open>
  Claim C6, as amended.  A run that ends with the status \<open>Done\<close> holds exactly one
  prediction per event of the input, and the stored list is the input in reverse order,
  the latest event first: the source reverses the list before it stores it.
\<close>

theorem predictions_latest_first:
  "trainingStatus (trainAndPredict fit cfg s) = Done \<Longrightarrow>
     length (predictions (trainAndPredict fit cfg s)) = length (localData s)
     \<and> map event.truncate (predictions (trainAndPredict fit cfg s)) = rev (localData s)"
proof (cases "length (localData s) < 30")
  case True
  assume "trainingStatus (trainAndPredict fit cfg s) = Done"
  then show ?thesis by (simp add: trainAndPredict_few_rows [OF True] setTrainingStatus_def)
next
  case rows: False
  assume d: "trainingStatus (trainAndPredict fit cfg s) = Done"
  show ?thesis
  proof (cases "length (X (buildDataset cfg (localData s))) < 30")
    case True
    with d show ?thesis
      by (simp add: trainAndPredict_few_examples [OF rows True] setTrainingStatus_def)
  next
    case False
    from d show ?thesis
      by (simp add: trainAndPredict_enough [OF rows False] Let_def setTrainingStatus_def
            rev_map comp_def truncate_withProbability split: option.splits)
  qed
qed

text \<open>The theorem at the 31 sample rows.\<close>

theorem predictions_latest_first_witness:
  "trainingStatus (trainAndPredict constantTrainer sampleConfig (sampleApp sampleRows)) = Done
   \<and> length (predictions (trainAndPredict constantTrainer sampleConfig (sampleApp sampleRows))) = 31
   \<and> map event.truncate (predictions (trainAndPredict constantTrainer sampleConfig (sampleApp sampleRows)))
       = rev sampleRows"
proof -
  have h: "trainingStatus (trainAndPredict constantTrainer sampleConfig (sampleApp sampleRows)) = Done"
    by (simp add: sample_run_trained setTrainingStatus_def)
  from predictions_latest_first [OF h] h show ?thesis
    by (simp add: sampleApp_def length_sampleRows)
qed

text \<open>
  Claim C6 as stated fails.  On the 31 sample rows, in time order, the run ends with
  \<open>Done\<close>; the first row is the event of day 0, the first prediction is the event of
  day 30, and the events of the predictions are not the rows in their order.
\<close>

theorem predictions_not_in_input_order:
  "trainingStatus (trainAndPredict constantTrainer sampleConfig (sampleApp sampleRows)) = Done
   \<and> localData (sampleApp sampleRows) = sampleRows
   \<and> hd sampleRows = sampleEvent 0 3
   \<and> hd (predictions (trainAndPredict constantTrainer sampleConfig (sampleApp sampleRows)))
       = withProbability (sampleEvent 30 3) (Fin (1 / 2))
   \<and> map event.truncate (predictions (trainAndPredict constantTrainer sampleConfig (sampleApp sampleRows)))
       \<noteq> sampleRows"
proof -
  have p: "predictions (trainAndPredict constantTrainer sampleConfig (sampleApp sampleRows))
      = rev (map (\<lambda>r. withProbability r (Fin (1 / 2))) sampleRows)"
    by (simp add: sample_run_trained setTrainingStatus_def)
  have ne: "sampleRows \<noteq> []" using length_sampleRows by auto
  have h: "hd (rev (map (\<lambda>r. withProbability r (Fin (1 / 2))) sampleRows))
      = withProbability (sampleEvent 30 3) (Fin (1 / 2))"
    using hd_rev_sampleRows(1) ne by (simp add: hd_rev last_map)
  have "hd (map event.truncate (rev (map (\<lambda>r. withProbability r (Fin (1 / 2))) sampleRows)))
      = sampleEvent 30 3"
    using ne by (simp add: hd_map h truncate_withProbability)
  moreover have "sampleEvent 30 3 \<noteq> sampleEvent 0 3" by (simp add: sampleEvent_def)
  ultimately have "map event.truncate (rev (map (\<lambda>r. withProbability r (Fin (1 / 2))) sampleRows)) \<noteq> sampleRows"
    using hd_rev_sampleRows(2) by metis
  then have ne': "map event.truncate (predictions (trainAndPredict constantTrainer sampleConfig (sampleApp sampleRows)))
       \<noteq> sampleRows"
    unfolding p .
  have st: "trainingStatus (trainAndPredict constantTrainer sampleConfig (sampleApp sampleRows)) = Done"
    by (simp add: sample_run_trained setTrainingStatus_def)
  have ld: "localData (sampleApp sampleRows) = sampleRows" by (simp add: sampleApp_def)
  have h': "hd (predictions (trainAndPredict constantTrainer sampleConfig (sampleApp sampleRows)))
       = withProbability (sampleEvent 30 3) (Fin (1 / 2))"
    unfolding p by (rule h)
  show ?thesis using st ld hd_rev_sampleRows(2) h' ne' by blast
qed

section \<open>The training examples\<close>




text \<open>
  Claim C10.  The examples and the cells of the grid together are as many as the events,
  and no cell is empty.  So 30 events give at most 29 examples, and a session of at most
  30 events never passes the two gates of \<open>trainAndPredict\<close>.
\<close>

theorem examples_count:
  "length (X (buildDataset cfg rs)) + length (groupByGrid rs (cellKm cfg)) = length rs
   \<and> [] \<notin> set (map (\<lambda>kc. rows (snd kc)) (groupByGrid rs (cellKm cfg)))
   \<and> (length rs = 30 \<longrightarrow> length (X (buildDataset cfg rs)) \<le> 29)
   \<and> (length (localData s) \<le> 30 \<longrightarrow>
        trainingStatus (trainAndPredict fit cfg s) = Idle
        \<and> predictions (trainAndPredict fit cfg s) = predictions s)"
proof (intro conjI impI)
  show c: "length (X (buildDataset cfg rs)) + length (groupByGrid rs (cellKm cfg)) = length rs" for rs
    by (rule count_buildDataset)
  show "[] \<notin> set (map (\<lambda>kc. rows (snd kc)) (groupByGrid rs (cellKm cfg)))"
  proof
    assume "[] \<in> set (map (\<lambda>kc. rows (snd kc)) (groupByGrid rs (cellKm cfg)))"
    then obtain k where k: "k \<in> set (firstKeys (cellKm cfg) rs)"
      and e: "filter (\<lambda>r. cellOf (cellKm cfg) r = k) rs = []"
      by (auto simp: groupByGrid_eq cellFor_def image_iff)
    from cell_nonempty [OF k] e show False by simp
  qed
  show "length (X (buildDataset cfg rs)) \<le> 29" if "length rs = 30"
  proof -
    from that have "rs \<noteq> []" by auto
    then have "groupByGrid rs (cellKm cfg) \<noteq> []" by (rule groupByGrid_nonempty)
    then have "0 < length (groupByGrid rs (cellKm cfg))" by simp
    with c [of rs] that show ?thesis by linarith
  qed
  assume le: "length (localData s) \<le> 30"
  have gate: "length (localData s) < 30 \<or> length (X (buildDataset cfg (localData s))) < 30"
  proof (cases "localData s = []")
    case True
    then show ?thesis by simp
  next
    case False
    then have "groupByGrid (localData s) (cellKm cfg) \<noteq> []" by (rule groupByGrid_nonempty)
    then have "0 < length (groupByGrid (localData s) (cellKm cfg))" by simp
    with c [of "localData s"] le show ?thesis by linarith
  qed
  show "trainingStatus (trainAndPredict fit cfg s) = Idle"
    using gate
    by (cases "length (localData s) < 30")
       (simp_all add: trainAndPredict_few_rows trainAndPredict_few_examples setTrainingStatus_def)
  show "predictions (trainAndPredict fit cfg s) = predictions s"
    using gate
    by (cases "length (localData s) < 30")
       (simp_all add: trainAndPredict_few_rows trainAndPredict_few_examples setTrainingStatus_def
          raiseAlert_def)
qed

text \<open>The theorem at the first 30 sample rows.\<close>

theorem examples_count_witness:
  "length (take 30 sampleRows) = 30
   \<and> length (X (buildDataset sampleConfig (take 30 sampleRows))) \<le> 29
   \<and> length (X (buildDataset sampleConfig (take 30 sampleRows)))
       + length (groupByGrid (take 30 sampleRows) (cellKm sampleConfig)) = 30
   \<and> length (localData (sampleApp (take 30 sampleRows))) \<le> 30
   \<and> trainingStatus (trainAndPredict constantTrainer sampleConfig (sampleApp (take 30 sampleRows))) = Idle
   \<and> predictions (trainAndPredict constantTrainer sampleConfig (sampleApp (take 30 sampleRows))) = []"
proof -
  have h1: "length (take 30 sampleRows) = 30" by (simp add: length_sampleRows)
  have h2: "length (localData (sampleApp (take 30 sampleRows))) \<le> 30" by (simp add: sampleApp_def)
  have p: "predictions (sampleApp (take 30 sampleRows)) = []" by (simp add: sampleApp_def)
  from examples_count [of sampleConfig "take 30 sampleRows" "sampleApp (take 30 sampleRows)" constantTrainer]
    h1 h2 p
  show ?thesis by simp
qed

text \<open>
  Claim C5.  Three events of one cell at the times \<open>T\<close>, \<open>T\<close> plus 10 days and \<open>T\<close>
  plus 40 days (in milliseconds) with the magnitudes 3, 3 and 5, a threshold of 4, a
  horizon of 35 days and a lookback of 30 days: the dataset has two examples, with label
  \<open>0\<close> for the event at \<open>T\<close> and label \<open>1\<close> for the event 10 days later, and none
  for the last event.  The second example counts the first event as its one past event,
  240 hours before.
\<close>

theorem three_events_end_to_end:
  assumes t1: "date e1 = Date (Fin T)"
    and t2: "date e2 = Date (Fin (T + 10 * 86400000))"
    and t3: "date e3 = Date (Fin (T + 40 * 86400000))"
    and m: "mag e1 = Fin 3" "mag e2 = Fin 3" "mag e3 = Fin 5"
    and c: "cellOf (cellKm cfg) e2 = cellOf (cellKm cfg) e1" "cellOf (cellKm cfg) e3 = cellOf (cellKm cfg) e1"
    and p: "lookbackDays cfg = Fin 30" "horizonDays cfg = Fin 35" "magThreshold cfg = Fin 4"
  shows "y (buildDataset cfg [e1, e2, e3]) = [0, 1]
    \<and> map time (metas (buildDataset cfg [e1, e2, e3])) = [Fin T, Fin (T + 10 * 86400000)]
    \<and> X (buildDataset cfg [e1, e2, e3])
        = [[lat e1, lon e1, Fin 0, Fin 0, Fin 999999], [lat e2, lon e2, Fin 1, Fin 3, Fin 240]]"
proof -
  have g: "groupByGrid [e1, e2, e3] (cellKm cfg)
      = [(cellOf (cellKm cfg) e1, cellFor (cellKm cfg) [e1, e2, e3] (cellOf (cellKm cfg) e1))]"
    by (simp add: groupByGrid_eq firstKeys_def c)
  have r: "rows (cellFor (cellKm cfg) [e1, e2, e3] (cellOf (cellKm cfg) e1)) = [e1, e2, e3]"
    by (simp add: cellFor_def c)
  have s: "sortBy byDate [e1, e2, e3] = [e1, e2, e3]"
    by (simp add: sortBy_def byDate_def t1 t2 t3 jgt_def jsub_def)
  have x0: "example cfg ce [e1, e2, e3] 0
      = ([lat e1, lon e1, Fin 0, Fin 0, Fin 999999], 0, \<lparr>cell = (gx ce, gy ce), time = Fin T, source = locate e1\<rparr>)" for ce
    by (simp add: example_def Let_def t1 t2 t3 m p daysMs_def pastFeatures_def jgt_def jge_def jle_def jsub_def)
  have x1: "example cfg ce [e1, e2, e3] (Suc 0)
      = ([lat e2, lon e2, Fin 1, Fin 3, Fin 240], 1,
         \<lparr>cell = (gx ce, gy ce), time = Fin (T + 10 * 86400000), source = locate e2\<rparr>)" for ce
    by (simp add: example_def Let_def t1 t2 t3 m p daysMs_def pastFeatures_def jgt_def jge_def jle_def jsub_def)
  have "buildDataset cfg [e1, e2, e3]
      = push (push \<lparr>X = [], y = [], metas = []\<rparr>
           (example cfg (cellFor (cellKm cfg) [e1, e2, e3] (cellOf (cellKm cfg) e1)) [e1, e2, e3] 0))
           (example cfg (cellFor (cellKm cfg) [e1, e2, e3] (cellOf (cellKm cfg) e1)) [e1, e2, e3] (Suc 0))"
    by (simp add: buildDataset_def g cellLoop_def r s Let_def upt_rec [of 0 2] upt_rec [of 1 2])
  then show ?thesis
    by (simp add: x0 x1 push_def)
qed

text \<open>The theorem at \<open>T = 0\<close> and three sample events.\<close>

theorem three_events_end_to_end_witness:
  "date (sampleEvent 0 3) = Date (Fin 0)
   \<and> date (sampleEvent 10 3) = Date (Fin (0 + 10 * 86400000))
   \<and> date (sampleEvent 40 5) = Date (Fin (0 + 40 * 86400000))
   \<and> cellOf (cellKm sampleConfig) (sampleEvent 10 3) = cellOf (cellKm sampleConfig) (sampleEvent 0 3)
   \<and> cellOf (cellKm sampleConfig) (sampleEvent 40 5) = cellOf (cellKm sampleConfig) (sampleEvent 0 3)
   \<and> y (buildDataset sampleConfig [sampleEvent 0 3, sampleEvent 10 3, sampleEvent 40 5]) = [0, 1]
   \<and> map time (metas (buildDataset sampleConfig [sampleEvent 0 3, sampleEvent 10 3, sampleEvent 40 5]))
       = [Fin 0, Fin 864000000]
   \<and> X (buildDataset sampleConfig [sampleEvent 0 3, sampleEvent 10 3, sampleEvent 40 5])
       = [[Fin 13, Fin 100, Fin 0, Fin 0, Fin 999999], [Fin 13, Fin 100, Fin 1, Fin 3, Fin 240]]"
proof -
  have t: "date (sampleEvent 0 3) = Date (Fin 0)"
    "date (sampleEvent 10 3) = Date (Fin (0 + 10 * 86400000))"
    "date (sampleEvent 40 5) = Date (Fin (0 + 40 * 86400000))"
    by (simp_all add: sampleEvent_def)
  have m: "mag (sampleEvent 0 3) = Fin 3" "mag (sampleEvent 10 3) = Fin 3" "mag (sampleEvent 40 5) = Fin 5"
    by (simp_all add: sampleEvent_def)
  have c: "cellOf (cellKm sampleConfig) (sampleEvent 10 3) = cellOf (cellKm sampleConfig) (sampleEvent 0 3)"
    "cellOf (cellKm sampleConfig) (sampleEvent 40 5) = cellOf (cellKm sampleConfig) (sampleEvent 0 3)"
    by (simp_all add: sampleEvent_def cellOf_def)
  have p: "lookbackDays sampleConfig = Fin 30" "horizonDays sampleConfig = Fin 35"
    "magThreshold sampleConfig = Fin 4"
    by (simp_all add: sampleConfig_def)
  have l: "lat (sampleEvent d m) = Fin 13" "lon (sampleEvent d m) = Fin 100" for d m
    by (simp_all add: sampleEvent_def)
  from three_events_end_to_end [OF t m c p] t c show ?thesis
    by (simp add: l)
qed

section \<open>Properties of the normalizer\<close>

lemma foldl_jadd_Fin: "foldl jadd (Fin a) (map Fin xs) = Fin (a + sum_list xs)"
  by (induction xs arbitrary: a) (simp_all add: add.assoc)

lemma jmean_Fin: "xs \<noteq> [] \<Longrightarrow> jmean (map Fin xs) = Fin (meanReal xs)"
  by (simp add: jmean_def jsum_def foldl_jadd_Fin meanReal_def)

lemma jvariance_Fin: "xs \<noteq> [] \<Longrightarrow> jvariance (map Fin xs) = Fin (varReal xs)"
proof -
  assume ne: "xs \<noteq> []"
  have "map (\<lambda>x. jsquare (jsub x (Fin (meanReal xs)))) (map Fin xs)
      = map Fin (map (\<lambda>x. (x - meanReal xs)\<^sup>2) xs)"
    by (simp add: jsub_def)
  then show ?thesis
    using ne by (simp add: jvariance_def jmean_Fin varReal_def del: map_map)
qed

lemma varReal_nonneg: "0 \<le> varReal xs"
  by (auto simp: varReal_def meanReal_def intro!: divide_nonneg_nonneg sum_list_nonneg)

lemma sum_list_div: "(\<Sum>x\<leftarrow>xs. f x / s) = (\<Sum>x\<leftarrow>xs. (f x :: real)) / s"
  by (induction xs) (simp_all add: add_divide_distrib)

lemma sum_list_centered: "xs \<noteq> [] \<Longrightarrow> (\<Sum>x\<leftarrow>xs. x - meanReal xs) = 0"
  by (simp add: sum_list_subtractf meanReal_def sum_list_const_mult sum_list_triv)

lemma meanReal_scaled:
  "xs \<noteq> [] \<Longrightarrow> meanReal (map (\<lambda>x. (x - meanReal xs) / s) xs) = 0"
proof -
  assume ne: "xs \<noteq> []"
  have "(\<Sum>x\<leftarrow>xs. (x - meanReal xs) / s) = (\<Sum>x\<leftarrow>xs. x - meanReal xs) / s"
    by (rule sum_list_div)
  then show ?thesis using sum_list_centered [OF ne] by (simp add: meanReal_def comp_def)
qed

lemma varReal_scaled:
  assumes ne: "xs \<noteq> []"
  shows "varReal (map (\<lambda>x. (x - meanReal xs) / s) xs) = varReal xs / s\<^sup>2"
proof -
  have "(\<Sum>x\<leftarrow>xs. ((x - meanReal xs) / s)\<^sup>2) = (\<Sum>x\<leftarrow>xs. (x - meanReal xs)\<^sup>2) / s\<^sup>2"
    by (simp add: power_divide sum_list_div)
  then show ?thesis
    unfolding varReal_def [of "map _ xs"] meanReal_scaled [OF ne]
    by (simp add: varReal_def meanReal_def comp_def)
qed

lemma length_columns: "M \<noteq> [] \<Longrightarrow> length (columns M) = length (hd M)"
  by (cases M) (simp_all add: columns_def)

lemma columns_nth: "M \<noteq> [] \<Longrightarrow> j < length (hd M) \<Longrightarrow> columns M ! j = map (\<lambda>row. row ! j) M"
  by (cases M) (simp_all add: columns_def)

lemma moments_nth:
  assumes "M \<noteq> []" "j < length (hd M)"
  shows "fst (moments M) ! j = jmean (map (\<lambda>row. row ! j) M)"
    and "snd (moments M) ! j = jvariance (map (\<lambda>row. row ! j) M)"
  using assms by (simp_all add: moments_def length_columns columns_nth)

lemma length_moments:
  "M \<noteq> [] \<Longrightarrow> length (fst (moments M)) = length (hd M)"
  "M \<noteq> [] \<Longrightarrow> length (snd (moments M)) = length (hd M)"
  by (simp_all add: moments_def length_columns)

lemma length_normalizeRow:
  "length (normalizeRow mean std xs) = min (length xs) (min (length mean) (length std))"
  by (simp add: normalizeRow_def)

lemma normalizeRow_nth:
  "j < length xs \<Longrightarrow> j < length mean \<Longrightarrow> j < length std \<Longrightarrow>
     normalizeRow mean std xs ! j = jdiv (jsub (xs ! j) (mean ! j)) (std ! j)"
  by (simp add: normalizeRow_def)

lemma normalized_column:
  assumes ne: "M \<noteq> []"
    and rect: "\<And>row. row \<in> set M \<Longrightarrow> length row = w"
    and j: "j < w"
    and col: "map (\<lambda>row. row ! j) M = map Fin xs"
  defines "N \<equiv> map (normalizeRow (fst (moments M)) (stdOf (snd (moments M)))) M"
  shows "fst (moments M) ! j = Fin (meanReal xs)"
    and "snd (moments M) ! j = Fin (varReal xs)"
    and "fst (moments N) ! j = Fin 0"
    and "Math_sqrt (snd (moments N) ! j) = Fin (sqrt (varReal xs) / (sqrt (varReal xs) + 1 / 1000000))"
proof -
  let ?s = "sqrt (varReal xs) + 1 / 1000000"
  have w: "length (hd M) = w" using ne rect by (cases M) simp_all
  have xne: "xs \<noteq> []" using col ne by (cases xs) simp_all
  have jM: "j < length (hd M)" using j w by simp
  show m: "fst (moments M) ! j = Fin (meanReal xs)"
    by (simp add: moments_nth(1) [OF ne jM] col jmean_Fin [OF xne])
  show v: "snd (moments M) ! j = Fin (varReal xs)"
    by (simp add: moments_nth(2) [OF ne jM] col jvariance_Fin [OF xne])
  have spos: "0 < ?s"
    using varReal_nonneg [of xs] by (simp add: add_nonneg_pos)
  have sd: "stdOf (snd (moments M)) ! j = Fin ?s"
    using jM varReal_nonneg [of xs] by (simp add: stdOf_def length_moments [OF ne] v not_less)
  have Nne: "N \<noteq> []" using ne by (simp add: N_def)
  have lenN: "length (hd N) = w"
    using ne rect by (cases M) (simp_all add: N_def length_normalizeRow length_moments stdOf_def w)
  have jN: "j < length (hd N)" using j lenN by simp
  have "map (\<lambda>row. row ! j) N
      = map (\<lambda>row. jdiv (jsub (row ! j) (Fin (meanReal xs))) (Fin ?s)) M"
    unfolding N_def map_map comp_def
    by (rule map_cong [OF refl])
       (simp add: normalizeRow_nth rect j length_moments [OF ne] stdOf_def w m sd [unfolded stdOf_def])
  also have "\<dots> = map (\<lambda>x. jdiv (jsub x (Fin (meanReal xs))) (Fin ?s)) (map (\<lambda>row. row ! j) M)"
    by (simp add: comp_def)
  also have "\<dots> = map Fin (map (\<lambda>x. (x - meanReal xs) / ?s) xs)"
    unfolding col using spos by (simp add: jsub_def)
  finally have colN: "map (\<lambda>row. row ! j) N = map Fin (map (\<lambda>x. (x - meanReal xs) / ?s) xs)" .
  have zne: "map (\<lambda>x. (x - meanReal xs) / ?s) xs \<noteq> []" using xne by simp
  show "fst (moments N) ! j = Fin 0"
    unfolding moments_nth(1) [OF Nne jN] colN jmean_Fin [OF zne]
    by (simp add: meanReal_scaled [OF xne])
  have "snd (moments N) ! j = Fin (varReal xs / ?s\<^sup>2)"
    unfolding moments_nth(2) [OF Nne jN] colN jvariance_Fin [OF zne]
    by (simp add: varReal_scaled [OF xne])
  moreover have "sqrt (varReal xs / ?s\<^sup>2) = sqrt (varReal xs) / ?s"
    using spos by (simp add: real_sqrt_divide)
  moreover have "0 \<le> varReal xs / ?s\<^sup>2" using varReal_nonneg [of xs] by simp
  ultimately show "Math_sqrt (snd (moments N) ! j) = Fin (sqrt (varReal xs) / ?s)"
    by (simp add: not_less)
qed

lemma X_examples: "aligned ds \<Longrightarrow> X ds = map fst (examples ds)"
  by (simp add: aligned_def examples_def)

lemma X_row_shape:
  assumes "x \<in> set (X (buildDataset cfg rs))"
  shows "length x = 5 \<and> (\<exists>r\<in>set rs. x ! 0 = lat r)"
proof -
  from assms obtain e where e: "e \<in> set (examples (buildDataset cfg rs))" and x: "x = fst e"
    by (auto simp: X_examples [OF buildDataset_aligned])
  from e obtain k where "e \<in> set (cellExamples cfg (cellFor (cellKm cfg) rs k))"
    by (auto simp: buildDataset_examples groupByGrid_eq)
  then obtain i where i: "i < length (filter (\<lambda>r. cellOf (cellKm cfg) r = k) rs) - 1"
    and ei: "e = example cfg (cellFor (cellKm cfg) rs k)
                   (sortBy byDate (filter (\<lambda>r. cellOf (cellKm cfg) r = k) rs)) i"
    by (auto simp: cellExamples_def cellFor_def)
  let ?srt = "sortBy byDate (filter (\<lambda>r. cellOf (cellKm cfg) r = k) rs)"
  have "i < length ?srt" using i by (simp add: length_sortBy)
  then have "?srt ! i \<in> set ?srt" by (rule nth_mem)
  then have mem: "?srt ! i \<in> set rs" by (simp add: set_sortBy)
  have "length (fst e) = 5" and "fst e ! 0 = lat (?srt ! i)"
    by (simp_all add: ei example_def Let_def pastFeatures_def)
  with mem x show ?thesis by auto
qed

lemma meanReal_replicate: "0 < n \<Longrightarrow> meanReal (replicate n c) = c"
  by (simp add: meanReal_def sum_list_replicate)

lemma varReal_replicate: "0 < n \<Longrightarrow> varReal (replicate n c) = 0"
  by (simp add: varReal_def meanReal_replicate)

lemma sample_latitude_column:
  "map (\<lambda>row. row ! 0) (X (buildDataset cfg sampleRows)) = map Fin (replicate 30 13)"
proof -
  have "\<forall>v\<in>set (map (\<lambda>row. row ! 0) (X (buildDataset cfg sampleRows))). v = Fin 13"
  proof
    fix v assume "v \<in> set (map (\<lambda>row. row ! 0) (X (buildDataset cfg sampleRows)))"
    then obtain x where "x \<in> set (X (buildDataset cfg sampleRows))" and v: "v = x ! 0" by auto
    from X_row_shape [OF this(1)] obtain r where "r \<in> set sampleRows" and "x ! 0 = lat r" by auto
    then show "v = Fin 13" by (auto simp: v sampleRows_def sampleEvent_def)
  qed
  from replicate_length_same [OF this]
  show ?thesis by (simp add: sample_examples_count)
qed

text \<open>
  Claim C8, as amended.  Let \<open>M\<close> be a matrix with rows of one length whose column \<open>j\<close>
  holds the finite numbers \<open>xs\<close>, and let \<open>\<sigma>\<close> be the square root of their variance, the
  fitted standard deviation.  In the matrix normalized with its own moments, the mean of
  column \<open>j\<close> is \<open>0\<close> and its standard deviation is \<open>\<sigma> / (\<sigma> + 1e-6)\<close>: at least
  \<open>0\<close>, below \<open>1\<close>, and within \<open>1e-6\<close> of \<open>1\<close> exactly when \<open>\<sigma>\<close> is at least
  \<open>1 - 1e-6\<close>.  A trained run normalizes the training matrix and the features of every
  event at inference with the same mean and standard deviation, those of the training
  matrix.
\<close>

theorem normalizer_on_fitted_matrix:
  assumes "M \<noteq> []" and "\<forall>row\<in>set M. length row = w" and "j < w"
    and "map (\<lambda>row. row ! j) M = map Fin xs"
  shows "fst (moments (map (normalizeRow (fst (moments M)) (stdOf (snd (moments M)))) M)) ! j = Fin 0
    \<and> Math_sqrt (snd (moments M) ! j) = Fin (sqrt (varReal xs))
    \<and> Math_sqrt (snd (moments (map (normalizeRow (fst (moments M)) (stdOf (snd (moments M)))) M)) ! j)
        = Fin (sqrt (varReal xs) / (sqrt (varReal xs) + 1 / 1000000))
    \<and> 0 \<le> sqrt (varReal xs) / (sqrt (varReal xs) + 1 / 1000000)
    \<and> sqrt (varReal xs) / (sqrt (varReal xs) + 1 / 1000000) < 1
    \<and> (\<bar>sqrt (varReal xs) / (sqrt (varReal xs) + 1 / 1000000) - 1\<bar> \<le> 1 / 1000000
         \<longleftrightarrow> 1 - 1 / 1000000 \<le> sqrt (varReal xs))
    \<and> (trainingStatus (trainAndPredict fit cfg s) = Done \<longrightarrow>
         (\<exists>model.
            fit (map (normalizeRow (fst (moments (X (buildDataset cfg (localData s)))))
                       (stdOf (snd (moments (X (buildDataset cfg (localData s)))))))
                   (X (buildDataset cfg (localData s))))
                (y (buildDataset cfg (localData s))) = Some model
            \<and> map probability (predictions (trainAndPredict fit cfg s))
                = rev (map (\<lambda>r. model
                        (normalizeRow (fst (moments (X (buildDataset cfg (localData s)))))
                           (stdOf (snd (moments (X (buildDataset cfg (localData s))))))
                           (inferFeatures cfg (localData s) r)))
                      (localData s))))"
proof (intro conjI impI)
  define \<sigma> where "\<sigma> = sqrt (varReal xs)"
  have s0: "0 \<le> \<sigma>" unfolding \<sigma>_def using varReal_nonneg [of xs] by simp
  have rect: "\<And>row. row \<in> set M \<Longrightarrow> length row = w" using assms(2) by blast
  note col = normalized_column [OF assms(1) rect assms(3) assms(4)]
  show "fst (moments (map (normalizeRow (fst (moments M)) (stdOf (snd (moments M)))) M)) ! j = Fin 0"
    by (rule col(3))
  show "Math_sqrt (snd (moments M) ! j) = Fin (sqrt (varReal xs))"
    using varReal_nonneg [of xs] by (simp add: col(2) not_less)
  show "Math_sqrt (snd (moments (map (normalizeRow (fst (moments M)) (stdOf (snd (moments M)))) M)) ! j)
        = Fin (sqrt (varReal xs) / (sqrt (varReal xs) + 1 / 1000000))"
    by (rule col(4))
  show "0 \<le> sqrt (varReal xs) / (sqrt (varReal xs) + 1 / 1000000)"
    unfolding \<sigma>_def [symmetric] using s0 by simp
  show "sqrt (varReal xs) / (sqrt (varReal xs) + 1 / 1000000) < 1"
    unfolding \<sigma>_def [symmetric] using s0 by (simp add: field_simps)
  show "\<bar>sqrt (varReal xs) / (sqrt (varReal xs) + 1 / 1000000) - 1\<bar> \<le> 1 / 1000000
         \<longleftrightarrow> 1 - 1 / 1000000 \<le> sqrt (varReal xs)"
    unfolding \<sigma>_def [symmetric]
  proof -
    have p: "0 < \<sigma> + 1 / 1000000" using s0 by simp
    have "\<sigma> / (\<sigma> + 1 / 1000000) - 1 = - ((1 / 1000000) / (\<sigma> + 1 / 1000000))"
      using p by (simp add: field_simps)
    then have "\<bar>\<sigma> / (\<sigma> + 1 / 1000000) - 1\<bar> = (1 / 1000000) / (\<sigma> + 1 / 1000000)"
      using p by simp
    also have "\<dots> \<le> 1 / 1000000 \<longleftrightarrow> 1 - 1 / 1000000 \<le> \<sigma>"
      using p by (simp add: field_simps)
    finally show "\<bar>\<sigma> / (\<sigma> + 1 / 1000000) - 1\<bar> \<le> 1 / 1000000 \<longleftrightarrow> 1 - 1 / 1000000 \<le> \<sigma>" .
  qed
next
  assume d: "trainingStatus (trainAndPredict fit cfg s) = Done"
  have rows: "\<not> length (localData s) < 30"
    using d by (auto simp: trainAndPredict_few_rows setTrainingStatus_def)
  have exs: "\<not> length (X (buildDataset cfg (localData s))) < 30"
    using d rows by (auto simp: trainAndPredict_few_examples setTrainingStatus_def)
  have pw: "probability (withProbability r p) = p" for r p
    by (simp add: withProbability_def)
  from d show "\<exists>model.
            fit (map (normalizeRow (fst (moments (X (buildDataset cfg (localData s)))))
                       (stdOf (snd (moments (X (buildDataset cfg (localData s)))))))
                   (X (buildDataset cfg (localData s))))
                (y (buildDataset cfg (localData s))) = Some model
            \<and> map probability (predictions (trainAndPredict fit cfg s))
                = rev (map (\<lambda>r. model
                        (normalizeRow (fst (moments (X (buildDataset cfg (localData s)))))
                           (stdOf (snd (moments (X (buildDataset cfg (localData s))))))
                           (inferFeatures cfg (localData s) r)))
                      (localData s))"
    by (simp add: trainAndPredict_enough [OF rows exs] Let_def setTrainingStatus_def
          rev_map comp_def pw split: option.splits)
qed

text \<open>
  The theorem at the matrix of the one column \<open>0, 2\<close>, whose standard deviation is
  \<open>1\<close>, and at the run on the 31 sample rows.
\<close>

theorem normalizer_on_fitted_matrix_witness:
  "[[Fin 0], [Fin 2]] \<noteq> []
   \<and> list_all (\<lambda>row. length row = 1) [[Fin 0], [Fin 2]]
   \<and> map (\<lambda>row. row ! 0) [[Fin 0], [Fin 2]] = map Fin [0, 2]
   \<and> fst (moments (map (normalizeRow (fst (moments [[Fin 0], [Fin 2]]))
               (stdOf (snd (moments [[Fin 0], [Fin 2]])))) [[Fin 0], [Fin 2]])) ! 0 = Fin 0
   \<and> Math_sqrt (snd (moments [[Fin 0], [Fin 2]]) ! 0) = Fin 1
   \<and> Math_sqrt (snd (moments (map (normalizeRow (fst (moments [[Fin 0], [Fin 2]]))
               (stdOf (snd (moments [[Fin 0], [Fin 2]])))) [[Fin 0], [Fin 2]])) ! 0)
       = Fin (1000000 / 1000001)
   \<and> trainingStatus (trainAndPredict constantTrainer sampleConfig (sampleApp sampleRows)) = Done
   \<and> map probability (predictions (trainAndPredict constantTrainer sampleConfig (sampleApp sampleRows)))
       = replicate 31 (Fin (1 / 2))"
proof -
  have h1: "[[Fin 0], [Fin 2]] \<noteq> []" by simp
  have h2: "\<forall>row\<in>set [[Fin 0], [Fin 2]]. length row = 1" by simp
  have h3: "(0::nat) < 1" by simp
  have h4: "map (\<lambda>row. row ! 0) [[Fin 0], [Fin 2]] = map Fin [0, 2]" by simp
  have v: "varReal [0, 2] = 1" by (simp add: varReal_def meanReal_def)
  have d: "trainingStatus (trainAndPredict constantTrainer sampleConfig (sampleApp sampleRows)) = Done"
    by (simp add: sample_run_trained setTrainingStatus_def)
  note inst = normalizer_on_fitted_matrix [OF h1 h2 h3 h4, of constantTrainer sampleConfig "sampleApp sampleRows"]
  from inst d obtain model where
    "constantTrainer (map (normalizeRow (fst (moments (X (buildDataset sampleConfig (localData (sampleApp sampleRows))))))
                       (stdOf (snd (moments (X (buildDataset sampleConfig (localData (sampleApp sampleRows))))))))
                   (X (buildDataset sampleConfig (localData (sampleApp sampleRows)))))
                (y (buildDataset sampleConfig (localData (sampleApp sampleRows)))) = Some model"
    and pr: "map probability (predictions (trainAndPredict constantTrainer sampleConfig (sampleApp sampleRows)))
                = rev (map (\<lambda>r. model
                        (normalizeRow (fst (moments (X (buildDataset sampleConfig (localData (sampleApp sampleRows))))))
                           (stdOf (snd (moments (X (buildDataset sampleConfig (localData (sampleApp sampleRows)))))))
                           (inferFeatures sampleConfig (localData (sampleApp sampleRows)) r)))
                      (localData (sampleApp sampleRows)))"
    by blast
  then have "model = (\<lambda>x. Fin (1 / 2))" by (simp add: constantTrainer_def)
  with pr have pr': "map probability (predictions (trainAndPredict constantTrainer sampleConfig (sampleApp sampleRows)))
       = replicate 31 (Fin (1 / 2))"
    by (simp add: sampleApp_def map_replicate_const length_sampleRows)
  from inst have a: "fst (moments (map (normalizeRow (fst (moments [[Fin 0], [Fin 2]]))
               (stdOf (snd (moments [[Fin 0], [Fin 2]])))) [[Fin 0], [Fin 2]])) ! 0 = Fin 0"
    and b: "Math_sqrt (snd (moments [[Fin 0], [Fin 2]]) ! 0) = Fin (sqrt (varReal [0, 2]))"
    and c: "Math_sqrt (snd (moments (map (normalizeRow (fst (moments [[Fin 0], [Fin 2]]))
               (stdOf (snd (moments [[Fin 0], [Fin 2]])))) [[Fin 0], [Fin 2]])) ! 0)
       = Fin (sqrt (varReal [0, 2]) / (sqrt (varReal [0, 2]) + 1 / 1000000))"
    by blast+
  show ?thesis using h1 h4 a b c d pr' by (simp add: v)
qed

text \<open>
  Claim C8 as stated fails.  The 31 sample rows are at one latitude, so the first column
  of the 30 rows of their training matrix is constant: after the normalization its
  standard deviation is \<open>0\<close>, not \<open>1\<close>.
\<close>

theorem normalized_latitude_not_unit:
  "length (X (buildDataset sampleConfig sampleRows)) = 30
   \<and> Math_sqrt (snd (moments (map (normalizeRow (fst (moments (X (buildDataset sampleConfig sampleRows))))
                 (stdOf (snd (moments (X (buildDataset sampleConfig sampleRows))))))
               (X (buildDataset sampleConfig sampleRows)))) ! 0) = Fin 0"
proof -
  let ?X = "X (buildDataset sampleConfig sampleRows)"
  have ne: "?X \<noteq> []" using sample_examples_count [of sampleConfig] by auto
  have rect: "\<And>row. row \<in> set ?X \<Longrightarrow> length row = 5" using X_row_shape by blast
  have j: "(0::nat) < 5" by simp
  have "Math_sqrt (snd (moments (map (normalizeRow (fst (moments ?X)) (stdOf (snd (moments ?X)))) ?X)) ! 0)
      = Fin (sqrt (varReal (replicate 30 13)) / (sqrt (varReal (replicate 30 13)) + 1 / 1000000))"
    using normalized_column(4) [OF ne rect j sample_latitude_column] by simp
  then show ?thesis by (simp add: varReal_replicate sample_examples_count)
qed

end
